theory Spec2Isabelle
  imports Main "HOL-Library.Word"
begin

section \<open>JavaScript values and the operators the server applies to them\<close>

text \<open>
  Upstream payloads are whatever axios hands back in \<open>response.data\<close>: a parsed JSON
  value, or the body as a string. The server never computes with a number: it tests it
  for truthiness, compares it with zero and interpolates it into a string. Numbers are
  therefore kept abstract (type \<open>'n\<close>), and those primitives of the engine are fields of
  the \<open>world\<close> record below. Strings are \<open>string\<close>; an object is the list of its own
  properties, the first binding of a key being the property's value.
\<close>

datatype 'n json =
    JUndef
  | JNull
  | JBool bool
  | JNum 'n
  | JStr string
  | JArr "'n json list"
  | JObj "(string \<times> 'n json) list"

text \<open>\<open>new Error(msg)\<close> as thrown by the server, and the engine's \<open>TypeError\<close>.\<close>

datatype error = Error string | TypeError

definition bind_err :: "error + 'a \<Rightarrow> ('a \<Rightarrow> error + 'b) \<Rightarrow> error + 'b" where
  "bind_err m f = (case m of Inl e \<Rightarrow> Inl e | Inr x \<Rightarrow> f x)"

text \<open>
  An entry of \<open>proxyList.json\<close>, with the fields the code reads: \<open>host\<close>, \<open>port\<close> and
  the optional \<open>username\<close> and \<open>password\<close>.
\<close>

record proxy =
  host :: string
  port :: nat
  username :: "string option"
  password :: "string option"

text \<open>
  What the process does that can be seen from outside: \<open>new UserAgent()\<close>, a lookup in the
  response cache, a probe of a proxy (the request of \<open>validateProxy\<close>), and the upstream
  request \<open>axios.get(url, ...)\<close> of \<open>axiosWithRotation\<close>, direct or through a proxy.
\<close>

datatype event =
    EvUserAgent
  | EvCacheGet string
  | EvProbe proxy
  | EvGet string "proxy option"

text \<open>
  Everything the code reads from outside itself. \<open>production\<close> is \<open>ENV === "production"\<close>,
  \<open>proxyList\<close> the loaded candidate list, \<open>env\<close> is \<open>process.env\<close>. The engine's numeric
  primitives: \<open>num_truthy n\<close> (false for 0, -0 and NaN), \<open>num_gt0 n\<close> (\<open>n > 0\<close>),
  \<open>num_str n\<close> (the string of a number) and \<open>str_gt0 s\<close> (\<open>s > 0\<close> for a string \<open>s\<close>, which
  converts it to a number). The remaining fields answer for the network and the random
  generator; each is asked with the history of events so far, so that successive calls
  may be answered differently: \<open>random_index h n\<close> is \<open>Math.floor(Math.random() * n)\<close>,
  \<open>probe_ok h p\<close> tells whether the probe through \<open>p\<close> succeeds, \<open>http_get h url p\<close> is the
  payload of a successful upstream request or \<open>None\<close> when it fails (network error,
  timeout, status outside 2xx), and \<open>latency h\<close> is the time in milliseconds that the
  request issued after \<open>h\<close> takes.
\<close>

record 'n world =
  production :: bool
  proxyList :: "proxy list"
  env :: "string \<Rightarrow> string option"
  num_truthy :: "'n \<Rightarrow> bool"
  num_gt0 :: "'n \<Rightarrow> bool"
  num_str :: "'n \<Rightarrow> string"
  str_gt0 :: "string \<Rightarrow> bool"
  random_index :: "event list \<Rightarrow> nat \<Rightarrow> nat"
  probe_ok :: "event list \<Rightarrow> proxy \<Rightarrow> bool"
  http_get :: "event list \<Rightarrow> string \<Rightarrow> proxy option \<Rightarrow> 'n json option"
  latency :: "event list \<Rightarrow> nat"

text \<open>
  The mutable state of the process: the response cache (payload and expiry time of each
  key), the clock \<open>Date.now()\<close> in milliseconds, and the events so far.
\<close>

record 'n state =
  cache :: "string \<Rightarrow> ('n json \<times> nat) option"
  now :: nat
  history :: "event list"

subsection \<open>Operators\<close>

text \<open>Truthiness, as tested by \<open>if (x)\<close>, \<open>x ? a : b\<close> and \<open>x || y\<close>.\<close>

fun truthy :: "'n world \<Rightarrow> 'n json \<Rightarrow> bool" where
  "truthy w JUndef = False"
| "truthy w JNull = False"
| "truthy w (JBool b) = b"
| "truthy w (JNum n) = num_truthy w n"
| "truthy w (JStr s) = (s \<noteq> [])"
| "truthy w (JArr xs) = True"
| "truthy w (JObj kvs) = True"

text \<open>\<open>x || y\<close>\<close>

definition js_or :: "'n world \<Rightarrow> 'n json \<Rightarrow> 'n json \<Rightarrow> 'n json" where
  "js_or w x y = (if truthy w x then x else y)"

text \<open>
  \<open>x.k\<close> for the property names the server reads (none of them is inherited from a
  prototype, and \<open>length\<close> is handled by \<open>length_gt0\<close> below): a TypeError on
  \<open>undefined\<close> and \<open>null\<close>, the own property of an object, \<open>undefined\<close> otherwise.
\<close>

fun get_prop :: "'n json \<Rightarrow> string \<Rightarrow> error + 'n json" where
  "get_prop JUndef k = Inl TypeError"
| "get_prop JNull k = Inl TypeError"
| "get_prop (JObj kvs) k = Inr (case map_of kvs k of Some v \<Rightarrow> v | None \<Rightarrow> JUndef)"
| "get_prop x k = Inr JUndef"

text \<open>\<open>x?.k\<close>\<close>

fun opt_prop :: "'n json \<Rightarrow> string \<Rightarrow> 'n json" where
  "opt_prop (JObj kvs) k = (case map_of kvs k of Some v \<Rightarrow> v | None \<Rightarrow> JUndef)"
| "opt_prop x k = JUndef"

text \<open>\<open>x[0]\<close>: the first element of an array, the first character of a string, the
  property \<open>"0"\<close> of an object.\<close>

fun index0 :: "'n json \<Rightarrow> error + 'n json" where
  "index0 JUndef = Inl TypeError"
| "index0 JNull = Inl TypeError"
| "index0 (JArr []) = Inr JUndef"
| "index0 (JArr (x # xs)) = Inr x"
| "index0 (JStr []) = Inr JUndef"
| "index0 (JStr (c # cs)) = Inr (JStr [c])"
| "index0 (JObj kvs) = Inr (case map_of kvs ''0'' of Some v \<Rightarrow> v | None \<Rightarrow> JUndef)"
| "index0 x = Inr JUndef"

text \<open>
  \<open>`${x}`\<close>: the string of a value inside a template literal. An array is joined with
  commas, \<open>undefined\<close> and \<open>null\<close> elements giving the empty string; an object gives
  \<open>[object Object]\<close>, unless it has an own property \<open>toString\<close>, which a parsed payload
  can only bind to a value that is not callable, and then the conversion throws.
\<close>

fun to_str :: "'n world \<Rightarrow> 'n json \<Rightarrow> error + string"
  and join_elems :: "'n world \<Rightarrow> 'n json list \<Rightarrow> error + string"
  and elem_str :: "'n world \<Rightarrow> 'n json \<Rightarrow> error + string" where
  "to_str w JUndef = Inr ''undefined''"
| "to_str w JNull = Inr ''null''"
| "to_str w (JBool b) = Inr (if b then ''true'' else ''false'')"
| "to_str w (JNum n) = Inr (num_str w n)"
| "to_str w (JStr s) = Inr s"
| "to_str w (JArr xs) = join_elems w xs"
| "to_str w (JObj kvs) =
     (if ''toString'' \<in> set (map fst kvs) then Inl TypeError else Inr ''[object Object]'')"
| "join_elems w [] = Inr []"
| "join_elems w [x] = elem_str w x"
| "join_elems w (x # y # ys) =
     bind_err (elem_str w x) (\<lambda>a.
     bind_err (join_elems w (y # ys)) (\<lambda>b. Inr (a @ '','' @ b)))"
| "elem_str w JUndef = Inr []"
| "elem_str w JNull = Inr []"
| "elem_str w (JBool b) = to_str w (JBool b)"
| "elem_str w (JNum n) = to_str w (JNum n)"
| "elem_str w (JStr s) = to_str w (JStr s)"
| "elem_str w (JArr xs) = to_str w (JArr xs)"
| "elem_str w (JObj kvs) = to_str w (JObj kvs)"

text \<open>\<open>v > 0\<close> for an arbitrary value \<open>v\<close>, which the engine first converts to a
  number.\<close>

fun gt_zero :: "'n world \<Rightarrow> 'n json \<Rightarrow> error + bool" where
  "gt_zero w JUndef = Inr False"
| "gt_zero w JNull = Inr False"
| "gt_zero w (JBool b) = Inr b"
| "gt_zero w (JNum n) = Inr (num_gt0 w n)"
| "gt_zero w (JStr s) = Inr (str_gt0 w s)"
| "gt_zero w (JArr xs) = bind_err (to_str w (JArr xs)) (\<lambda>s. Inr (str_gt0 w s))"
| "gt_zero w (JObj kvs) =
     (if ''toString'' \<in> set (map fst kvs) then Inl TypeError else Inr False)"

text \<open>\<open>x.length > 0\<close>: arrays and strings have a length; an object has one only as an
  own property; a number or a boolean has none, and \<open>undefined > 0\<close> is false.\<close>

fun length_gt0 :: "'n world \<Rightarrow> 'n json \<Rightarrow> error + bool" where
  "length_gt0 w JUndef = Inl TypeError"
| "length_gt0 w JNull = Inl TypeError"
| "length_gt0 w (JArr xs) = Inr (xs \<noteq> [])"
| "length_gt0 w (JStr s) = Inr (s \<noteq> [])"
| "length_gt0 w (JObj kvs) =
     gt_zero w (case map_of kvs ''length'' of Some v \<Rightarrow> v | None \<Rightarrow> JUndef)"
| "length_gt0 w x = Inr False"

text \<open>\<open>x.slice(0, 10)\<close>: only arrays and strings have the method.\<close>

fun slice_0_10 :: "'n json \<Rightarrow> error + 'n json" where
  "slice_0_10 (JArr xs) = Inr (JArr (take 10 xs))"
| "slice_0_10 (JStr s) = Inr (JStr (take 10 s))"
| "slice_0_10 x = Inl TypeError"

text \<open>\<open>x.map(f)\<close>: only arrays have the method; the callback runs on the elements in
  order and the first exception ends the call.\<close>

fun map_err :: "('a \<Rightarrow> error + 'b) \<Rightarrow> 'a list \<Rightarrow> error + 'b list" where
  "map_err f [] = Inr []"
| "map_err f (x # xs) =
     bind_err (f x) (\<lambda>y. bind_err (map_err f xs) (\<lambda>ys. Inr (y # ys)))"

fun js_map :: "('n json \<Rightarrow> error + 'n json) \<Rightarrow> 'n json \<Rightarrow> error + 'n json" where
  "js_map f (JArr xs) = bind_err (map_err f xs) (\<lambda>ys. Inr (JArr ys))"
| "js_map f x = Inl TypeError"

text \<open>\<open>${process.env.NAME}\<close>: an unset variable reads as \<open>undefined\<close>.\<close>

definition env_str :: "'n world \<Rightarrow> string \<Rightarrow> string" where
  "env_str w name = (case env w name of Some v \<Rightarrow> v | None \<Rightarrow> ''undefined'')"

section \<open>Response cache\<close>

text \<open>
  Modelled from the spec: the store behind \<open>cache.get\<close> and \<open>cache.set\<close> is the
  node-cache package, which is not part of the repository. The spec gives it as a
  key-to-value store with a fixed time-to-live applied at insertion, where an entry
  older than its time-to-live is treated as absent. The server creates it with
  \<open>stdTTL: 3600\<close> (seconds). A lookup of an absent key yields \<open>undefined\<close>.
\<close>

definition stdTTL :: nat where
  "stdTTL = 3600"

definition cache_get :: "'n state \<Rightarrow> string \<Rightarrow> 'n json" where
  "cache_get s url =
     (case cache s url of
        None \<Rightarrow> JUndef
      | Some (v, expires) \<Rightarrow> if expires < now s then JUndef else v)"

definition cache_set :: "string \<Rightarrow> 'n json \<Rightarrow> 'n state \<Rightarrow> 'n state" where
  "cache_set url v s = s\<lparr>cache := (cache s)(url \<mapsto> (v, now s + stdTTL * 1000))\<rparr>"

section \<open>Proxy validation and selection\<close>

definition emit :: "event \<Rightarrow> 'n state \<Rightarrow> 'n state" where
  "emit e s = s\<lparr>history := history s @ [e]\<rparr>"

text \<open>An awaited request: the event is recorded and the clock moves on.\<close>

definition request :: "'n world \<Rightarrow> event \<Rightarrow> 'n state \<Rightarrow> 'n state" where
  "request w e s = s\<lparr>now := now s + latency w (history s), history := history s @ [e]\<rparr>"

text \<open>\<open>validateProxy\<close>: true when the probe through the proxy succeeds; every exception
  is caught and gives false.\<close>

definition validateProxy :: "'n world \<Rightarrow> proxy \<Rightarrow> 'n state \<Rightarrow> bool \<times> 'n state" where
  "validateProxy w p s = (probe_ok w (history s) p, request w (EvProbe p) s)"

text \<open>
  The \<open>while\<close> loop of \<open>getValidProxy\<close>, with \<open>retries\<close> as its argument. The index
  \<open>Math.floor(Math.random() * proxyList.length)\<close> is always below the length. The retry
  budget is a natural number: the only call in the code uses the default, 5.
\<close>

function getValidProxy_loop ::
  "'n world \<Rightarrow> nat \<Rightarrow> nat \<Rightarrow> 'n state \<Rightarrow> (error + proxy) \<times> 'n state" where
  "getValidProxy_loop w maxRetries retries s =
     (if retries < maxRetries \<and> length (proxyList w) > 0 then
        let randomIndex = random_index w (history s) (length (proxyList w))
                            mod length (proxyList w);
            p = proxyList w ! randomIndex
        in case validateProxy w p s of
             (True, s') \<Rightarrow> (Inr p, s')
           | (False, s') \<Rightarrow> getValidProxy_loop w maxRetries (retries + 1) s'
      else (Inl (Error ''No valid proxies available after maximum retries.''), s))"
  by pat_completeness auto
termination
  by (relation "measure (\<lambda>(w, maxRetries, retries, s). maxRetries - retries)") auto

declare getValidProxy_loop.simps [simp del]

definition getValidProxy :: "'n world \<Rightarrow> nat \<Rightarrow> 'n state \<Rightarrow> (error + proxy) \<times> 'n state" where
  "getValidProxy w maxRetries s =
     (if production w then (Inl (Error ''Proxy rotation is not enabled in production.''), s)
      else getValidProxy_loop w maxRetries 0 s)"

section \<open>The resilient fetcher\<close>

text \<open>
  The upstream request, which ends both branches of \<open>axiosWithRotation\<close>:
  \<open>const response = await axios.get(url, ...)\<close>, then \<open>cache.set(url, response.data)\<close>
  and \<open>return response\<close>; when the request fails, the \<open>catch\<close> throws a new error with
  the message of its branch and nothing is stored.
\<close>

definition upstream ::
  "'n world \<Rightarrow> string \<Rightarrow> proxy option \<Rightarrow> string \<Rightarrow> 'n state \<Rightarrow> (error + 'n json) \<times> 'n state" where
  "upstream w url p msg s =
     (case http_get w (history s) url p of
        Some d \<Rightarrow> (Inr d, cache_set url d (request w (EvGet url p) s))
      | None \<Rightarrow> (Inl (Error msg), request w (EvGet url p) s))"

text \<open>
  \<open>axiosWithRotation\<close>. Its callers read only \<open>response.data\<close>, so the model returns the
  payload: the cached value on a hit, the upstream payload otherwise. \<open>getValidProxy()\<close>
  is called with its default \<open>maxRetries = 5\<close>, and its exception is caught by the same
  \<open>catch\<close> as a failed request.
\<close>

definition axiosWithRotation ::
  "'n world \<Rightarrow> string \<Rightarrow> 'n state \<Rightarrow> (error + 'n json) \<times> 'n state" where
  "axiosWithRotation w url s0 =
     (let s1 = emit EvUserAgent s0;
          s2 = emit (EvCacheGet url) s1;
          cachedData = cache_get s1 url
      in if truthy w cachedData then (Inr cachedData, s2)
         else if production w then
           upstream w url None ''Failed to fetch data from the source.'' s2
         else
           (case getValidProxy w 5 s2 of
              (Inl e, s3) \<Rightarrow>
                (Inl (Error ''Failed to fetch data from the source after proxy retries.''), s3)
            | (Inr p, s3) \<Rightarrow>
                upstream w url (Some p)
                  ''Failed to fetch data from the source after proxy retries.'' s3))"

section \<open>Per-category fallback chains\<close>

text \<open>
  The common shape of a \<open>try\<close> block: \<open>const response = await axiosWithRotation(url)\<close>
  followed by code that only reads \<open>response.data\<close>. An exception of either part leaves
  the block.
\<close>

definition fetch_then ::
  "'n world \<Rightarrow> string \<Rightarrow> ('n json \<Rightarrow> error + 'r) \<Rightarrow> 'n state \<Rightarrow> (error + 'r) \<times> 'n state" where
  "fetch_then w url k s =
     (case axiosWithRotation w url s of
        (Inl e, s') \<Rightarrow> (Inl e, s')
      | (Inr d, s') \<Rightarrow> (k d, s'))"

text \<open>
  \<open>for (const url of urls) { try { ...; return r } catch (error) { } }\<close>: the body runs on
  the list in order; its first return ends the loop, an exception moves on to the next
  element. \<open>None\<close> when the loop ends without a return.
\<close>

fun try_each ::
  "('a \<Rightarrow> 's \<Rightarrow> (error + 'r) \<times> 's) \<Rightarrow> 'a list \<Rightarrow> 's \<Rightarrow> 'r option \<times> 's" where
  "try_each body [] s = (None, s)"
| "try_each body (u # us) s =
     (case body u s of
        (Inr r, s') \<Rightarrow> (Some r, s')
      | (Inl e, s') \<Rightarrow> try_each body us s')"

subsection \<open>Weather\<close>

definition weatherUrls :: "'n world \<Rightarrow> string \<Rightarrow> string list" where
  "weatherUrls w cityName =
     [''https://api.openweathermap.org/data/2.5/forecast?q='' @ cityName
        @ ''&units=metric&appid='' @ env_str w ''OPENWEATHER_API_KEY'',
      ''https://api.weatherapi.com/v1/forecast.json?key='' @ env_str w ''WEATHERAPI_KEY''
        @ ''&q='' @ cityName @ ''&days=7'']"

definition weather_body ::
  "'n world \<Rightarrow> string \<Rightarrow> 'n state \<Rightarrow> (error + 'n json) \<times> 'n state" where
  "weather_body w url =
     fetch_then w url (\<lambda>d. Inr (JObj [(''data'', d), (''source'', JStr url)]))"

definition weather_unavailable :: "'n json" where
  "weather_unavailable =
     JObj [(''data'', JStr ''Weather data unavailable''), (''source'', JStr ''None'')]"

definition fetchWeatherData ::
  "'n world \<Rightarrow> string \<Rightarrow> 'n state \<Rightarrow> (error + 'n json) \<times> 'n state" where
  "fetchWeatherData w cityName s =
     (case try_each (weather_body w) (weatherUrls w cityName) s of
        (Some r, s') \<Rightarrow> (Inr r, s')
      | (None, s') \<Rightarrow> (Inr weather_unavailable, s'))"

subsection \<open>News\<close>

definition newsUrls :: "'n world \<Rightarrow> string \<Rightarrow> string list" where
  "newsUrls w cityName =
     [''https://newsapi.org/v2/everything?q='' @ cityName
        @ ''&apiKey='' @ env_str w ''NEWSAPI_KEY'',
      ''https://gnews.io/api/v4/search?q='' @ cityName
        @ ''&lang=en&token='' @ env_str w ''GNEWS_KEY'']"

text \<open>\<open>response.data.articles.slice(0, 10).map((article) => article.title)\<close>\<close>

definition news_titles :: "'n json \<Rightarrow> error + 'n json" where
  "news_titles d =
     bind_err (get_prop d ''articles'') (\<lambda>a.
     bind_err (slice_0_10 a) (js_map (\<lambda>article. get_prop article ''title'')))"

definition news_body ::
  "'n world \<Rightarrow> string \<Rightarrow> 'n state \<Rightarrow> (error + 'n json) \<times> 'n state" where
  "news_body w url =
     fetch_then w url (\<lambda>d.
       bind_err (news_titles d) (\<lambda>articles.
         Inr (JObj [(''data'', articles), (''source'', JStr url)])))"

definition news_unavailable :: "'n json" where
  "news_unavailable =
     JObj [(''data'', JStr ''News data unavailable''), (''source'', JStr ''None'')]"

definition fetchNewsData ::
  "'n world \<Rightarrow> string \<Rightarrow> 'n state \<Rightarrow> (error + 'n json) \<times> 'n state" where
  "fetchNewsData w cityName s =
     (case try_each (news_body w) (newsUrls w cityName) s of
        (Some r, s') \<Rightarrow> (Inr r, s')
      | (None, s') \<Rightarrow> (Inr news_unavailable, s'))"

subsection \<open>Events\<close>

definition eventsUrl :: "'n world \<Rightarrow> string \<Rightarrow> string" where
  "eventsUrl w cityName =
     ''https://api.eventful.com/json/events/search?location='' @ cityName
       @ ''&app_key='' @ env_str w ''EVENTS_API_KEY''"

text \<open>\<open>`${e.title} at ${e.venue_name}`\<close>\<close>

definition event_line :: "'n world \<Rightarrow> 'n json \<Rightarrow> error + 'n json" where
  "event_line w e =
     bind_err (get_prop e ''title'') (\<lambda>title.
     bind_err (to_str w title) (\<lambda>t.
     bind_err (get_prop e ''venue_name'') (\<lambda>venue.
     bind_err (to_str w venue) (\<lambda>v. Inr (JStr (t @ '' at '' @ v))))))"

text \<open>The body of the \<open>try\<close> block after the fetch, with
  \<open>events = response.data.events?.event || []\<close>.\<close>

definition events_result :: "'n world \<Rightarrow> string \<Rightarrow> 'n json \<Rightarrow> error + 'n json" where
  "events_result w url d =
     bind_err (get_prop d ''events'') (\<lambda>ev.
       let events = js_or w (opt_prop ev ''event'') (JArr []) in
       bind_err (slice_0_10 events) (\<lambda>sl.
       bind_err (js_map (event_line w) sl) (\<lambda>lines.
         Inr (JObj [(''data'', lines), (''source'', JStr url)]))))"

definition events_unavailable :: "'n json" where
  "events_unavailable =
     JObj [(''data'', JStr ''Events data unavailable''), (''source'', JStr ''None'')]"

text \<open>The \<open>try\<close> block of \<open>fetchEventsData\<close>.\<close>

definition events_body ::
  "'n world \<Rightarrow> string \<Rightarrow> 'n state \<Rightarrow> (error + 'n json) \<times> 'n state" where
  "events_body w cityName =
     fetch_then w (eventsUrl w cityName) (events_result w (eventsUrl w cityName))"

definition fetchEventsData ::
  "'n world \<Rightarrow> string \<Rightarrow> 'n state \<Rightarrow> (error + 'n json) \<times> 'n state" where
  "fetchEventsData w cityName s =
     (case events_body w cityName s of
        (Inr r, s') \<Rightarrow> (Inr r, s')
      | (Inl e, s') \<Rightarrow> (Inr events_unavailable, s'))"

subsection \<open>Traffic\<close>

definition geoUrl :: "'n world \<Rightarrow> string \<Rightarrow> string" where
  "geoUrl w cityName =
     ''https://api.openweathermap.org/geo/1.0/direct?q='' @ cityName
       @ ''&limit=1&appid='' @ env_str w ''GEOCODING_API_KEY''"

text \<open>\<open>const { lat, lon } = location\<close> and the template of \<open>trafficUrl\<close>.\<close>

definition trafficUrl :: "'n world \<Rightarrow> 'n json \<Rightarrow> error + string" where
  "trafficUrl w location =
     bind_err (get_prop location ''lat'') (\<lambda>lat.
     bind_err (get_prop location ''lon'') (\<lambda>lon.
     bind_err (to_str w lat) (\<lambda>la.
     bind_err (to_str w lon) (\<lambda>lo.
       Inr (''https://api.tomtom.com/traffic/services/4/flowSegmentData/absolute/10/json?key=''
              @ env_str w ''TRAFFIC_API_KEY'' @ ''&point='' @ la @ '','' @ lo)))))"

text \<open>The object returned after the flow-data fetch.\<close>

definition traffic_result :: "'n world \<Rightarrow> string \<Rightarrow> 'n json \<Rightarrow> error + 'n json" where
  "traffic_result w url trafficData =
     (let speed = opt_prop (opt_prop trafficData ''flowSegmentData'') ''currentSpeed'' in
      bind_err
        (if truthy w speed
         then bind_err (get_prop trafficData ''flowSegmentData'') (\<lambda>f.
              bind_err (get_prop f ''currentSpeed'') (\<lambda>v.
              bind_err (to_str w v) (\<lambda>t. Inr (JStr (''Current speed: '' @ t @ '' km/h'')))))
         else Inr (JStr ''Traffic data unavailable''))
        (\<lambda>status. Inr (JObj [(''traffic_status'', status), (''source'', JStr url)])))"

definition traffic_unavailable :: "'n json" where
  "traffic_unavailable =
     JObj [(''traffic_status'', JStr ''Traffic data unavailable''), (''source'', JStr ''None'')]"

text \<open>The \<open>try\<close> block of \<open>fetchTrafficData\<close>.\<close>

definition traffic_body ::
  "'n world \<Rightarrow> string \<Rightarrow> 'n state \<Rightarrow> (error + 'n json) \<times> 'n state" where
  "traffic_body w cityName s =
     (case axiosWithRotation w (geoUrl w cityName) s of
        (Inl e, s1) \<Rightarrow> (Inl e, s1)
      | (Inr d, s1) \<Rightarrow>
          (case index0 d of
             Inl e \<Rightarrow> (Inl e, s1)
           | Inr location \<Rightarrow>
               if \<not> truthy w location
               then (Inl (Error ''Geolocation data unavailable for the city.''), s1)
               else (case trafficUrl w location of
                       Inl e \<Rightarrow> (Inl e, s1)
                     | Inr url \<Rightarrow> fetch_then w url (traffic_result w url) s1)))"

definition fetchTrafficData ::
  "'n world \<Rightarrow> string \<Rightarrow> 'n state \<Rightarrow> (error + 'n json) \<times> 'n state" where
  "fetchTrafficData w cityName s =
     (case traffic_body w cityName s of
        (Inr r, s') \<Rightarrow> (Inr r, s')
      | (Inl e, s') \<Rightarrow> (Inr traffic_unavailable, s'))"

subsection \<open>City information\<close>

definition geoNamesUrl :: "'n world \<Rightarrow> string \<Rightarrow> string" where
  "geoNamesUrl w cityName =
     ''http://api.geonames.org/searchJSON?q='' @ cityName
       @ ''&maxRows=1&username='' @ env_str w ''GEONAMES_USERNAME''"

definition wikipediaUrl :: "string \<Rightarrow> string" where
  "wikipediaUrl cityName = ''https://en.wikipedia.org/api/rest_v1/page/summary/'' @ cityName"

definition geoCodingUrl :: "'n world \<Rightarrow> string \<Rightarrow> string" where
  "geoCodingUrl w cityName =
     ''https://api.openweathermap.org/geo/1.0/direct?q='' @ cityName
       @ ''&limit=1&appid='' @ env_str w ''GEOCODING_API_KEY''"

text \<open>
  The first \<open>try\<close> block after its fetch. \<open>Some r\<close> is \<open>return r\<close>; \<open>None\<close> is the end of
  the block without a return, when \<open>response.data.geonames.length > 0\<close> is false.
\<close>

definition geoNames_result :: "'n world \<Rightarrow> string \<Rightarrow> 'n json \<Rightarrow> error + 'n json option" where
  "geoNames_result w url d =
     bind_err (get_prop d ''geonames'') (\<lambda>geonames.
     bind_err (length_gt0 w geonames) (\<lambda>nonempty.
       if nonempty then
         bind_err (index0 geonames) (\<lambda>cityData.
         bind_err (get_prop cityData ''name'') (\<lambda>name.
         bind_err (get_prop cityData ''population'') (\<lambda>population.
         bind_err (get_prop cityData ''countryName'') (\<lambda>countryName.
         bind_err (get_prop cityData ''lat'') (\<lambda>lat.
         bind_err (get_prop cityData ''lng'') (\<lambda>lng.
           Inr (Some (JObj
             [(''name'', name),
              (''population'', js_or w population (JStr ''Data unavailable'')),
              (''country'', countryName),
              (''coordinates'', JObj [(''lat'', lat), (''lon'', lng)]),
              (''source'', JStr url)]))))))))
       else Inr None))"

text \<open>The second \<open>try\<close> block after its fetch.\<close>

definition wikipedia_result :: "'n world \<Rightarrow> string \<Rightarrow> 'n json \<Rightarrow> error + 'n json" where
  "wikipedia_result w url d =
     bind_err (get_prop d ''title'') (\<lambda>title.
     bind_err (get_prop d ''extract'') (\<lambda>extract.
     bind_err (get_prop d ''thumbnail'') (\<lambda>thumbnail.
       Inr (JObj
         [(''name'', title),
          (''description'', js_or w extract (JStr ''Description unavailable'')),
          (''image'', js_or w (opt_prop thumbnail ''source'') (JStr ''No image available'')),
          (''source'', JStr url)]))))"

text \<open>The third \<open>try\<close> block after its fetch.\<close>

definition geoCoding_result :: "'n world \<Rightarrow> string \<Rightarrow> 'n json \<Rightarrow> error + 'n json option" where
  "geoCoding_result w url d =
     bind_err (length_gt0 w d) (\<lambda>nonempty.
       if nonempty then
         bind_err (index0 d) (\<lambda>location.
         bind_err (get_prop location ''name'') (\<lambda>name.
         bind_err (get_prop location ''lat'') (\<lambda>lat.
         bind_err (get_prop location ''lon'') (\<lambda>lon.
         bind_err (get_prop location ''country'') (\<lambda>country.
           Inr (Some (JObj
             [(''name'', name),
              (''coordinates'', JObj [(''lat'', lat), (''lon'', lon)]),
              (''country'', country),
              (''source'', JStr url)])))))))
       else Inr None)"

definition city_unavailable :: "'n json" where
  "city_unavailable =
     JObj [(''error'', JStr ''City information unavailable''), (''source'', JStr ''None'')]"

text \<open>The three \<open>try\<close> blocks of \<open>fetchCityInfo\<close>, and the function: a block that
  returns ends it, a block that throws or reaches its end hands over to the next.\<close>

definition geoNames_body ::
  "'n world \<Rightarrow> string \<Rightarrow> 'n state \<Rightarrow> (error + 'n json option) \<times> 'n state" where
  "geoNames_body w cityName =
     fetch_then w (geoNamesUrl w cityName) (geoNames_result w (geoNamesUrl w cityName))"

definition wikipedia_body ::
  "'n world \<Rightarrow> string \<Rightarrow> 'n state \<Rightarrow> (error + 'n json) \<times> 'n state" where
  "wikipedia_body w cityName =
     fetch_then w (wikipediaUrl cityName) (wikipedia_result w (wikipediaUrl cityName))"

definition geoCoding_body ::
  "'n world \<Rightarrow> string \<Rightarrow> 'n state \<Rightarrow> (error + 'n json option) \<times> 'n state" where
  "geoCoding_body w cityName =
     fetch_then w (geoCodingUrl w cityName) (geoCoding_result w (geoCodingUrl w cityName))"

definition fetchCityInfo ::
  "'n world \<Rightarrow> string \<Rightarrow> 'n state \<Rightarrow> (error + 'n json) \<times> 'n state" where
  "fetchCityInfo w cityName s =
     (case geoNames_body w cityName s of
        (Inr (Some r), s1) \<Rightarrow> (Inr r, s1)
      | (_, s1) \<Rightarrow>
          (case wikipedia_body w cityName s1 of
             (Inr r, s2) \<Rightarrow> (Inr r, s2)
           | (Inl e, s2) \<Rightarrow>
               (case geoCoding_body w cityName s2 of
                  (Inr (Some r), s3) \<Rightarrow> (Inr r, s3)
                | (_, s3) \<Rightarrow> (Inr city_unavailable, s3))))"

section \<open>The combined endpoint\<close>

text \<open>
  The handler of \<open>/api/city/:cityName\<close> waits for the five chains with
  \<open>Promise.allSettled\<close> and builds its answer from the five outcomes: \<open>Inr value\<close> is a
  fulfilled promise, \<open>Inl reason\<close> a rejected one. \<open>composite\<close> is the object handed to
  \<open>res.json\<close>; an exception while building it reaches the handler's \<open>catch\<close>.
\<close>

definition settled :: "error + 'n json \<Rightarrow> 'n json \<Rightarrow> 'n json" where
  "settled r fallback = (case r of Inr v \<Rightarrow> v | Inl e \<Rightarrow> fallback)"

definition composite ::
  "string \<Rightarrow> error + 'n json \<Rightarrow> error + 'n json \<Rightarrow> error + 'n json \<Rightarrow> error + 'n json
     \<Rightarrow> error + 'n json \<Rightarrow> error + 'n json" where
  "composite cityName cityResponse weatherResponse newsResponse eventsResponse trafficResponse =
     bind_err
       (case cityResponse of
          Inr v \<Rightarrow> get_prop v ''data''
        | Inl e \<Rightarrow> Inr (JObj [(''error'', JStr ''City data unavailable'')]))
       (\<lambda>city_info.
          Inr (JObj
            [(''city'', JStr cityName),
             (''city_info'', city_info),
             (''weather'',
                settled weatherResponse (JObj [(''data'', JStr ''Weather data unavailable'')])),
             (''news'',
                settled newsResponse (JObj [(''data'', JStr ''News data unavailable'')])),
             (''events'',
                settled eventsResponse (JObj [(''data'', JStr ''Events data unavailable'')])),
             (''traffic'',
                settled trafficResponse
                  (JObj [(''traffic_status'', JStr ''Traffic data unavailable'')]))]))"

text \<open>
  \<open>res.json\<close> sends the JSON text of its argument: a property whose value is \<open>undefined\<close>
  is left out, and \<open>undefined\<close> inside an array is written as \<open>null\<close>.
\<close>

fun res_json :: "'n json \<Rightarrow> 'n json"
  and res_json_props :: "(string \<times> 'n json) list \<Rightarrow> (string \<times> 'n json) list"
  and res_json_elems :: "'n json list \<Rightarrow> 'n json list" where
  "res_json (JArr xs) = JArr (res_json_elems xs)"
| "res_json (JObj kvs) = JObj (res_json_props kvs)"
| "res_json JUndef = JUndef"
| "res_json JNull = JNull"
| "res_json (JBool b) = JBool b"
| "res_json (JNum n) = JNum n"
| "res_json (JStr s) = JStr s"
| "res_json_props [] = []"
| "res_json_props ((k, v) # kvs) =
     (if v = JUndef then res_json_props kvs else (k, res_json v) # res_json_props kvs)"
| "res_json_elems [] = []"
| "res_json_elems (x # xs) =
     (if x = JUndef then JNull else res_json x) # res_json_elems xs"

text \<open>
  What the handler answers from the five outcomes: the JSON of \<open>composite\<close>, sent with
  status 200; \<open>Inl\<close> when building it throws, which the handler's \<open>catch\<close> answers with
  status 500.
\<close>

definition respond ::
  "string \<Rightarrow> error + 'n json \<Rightarrow> error + 'n json \<Rightarrow> error + 'n json \<Rightarrow> error + 'n json
     \<Rightarrow> error + 'n json \<Rightarrow> error + 'n json" where
  "respond cityName cityResponse weatherResponse newsResponse eventsResponse trafficResponse =
     bind_err
       (composite cityName cityResponse weatherResponse newsResponse eventsResponse
          trafficResponse)
       (\<lambda>body. Inr (res_json body))"

section \<open>Observations on a run\<close>

text \<open>The number of proxy probes in a history.\<close>

fun is_probe :: "event \<Rightarrow> bool" where
  "is_probe (EvProbe p) = True"
| "is_probe e = False"

definition probe_count :: "event list \<Rightarrow> nat" where
  "probe_count h = length (filter is_probe h)"

text \<open>The upstream requests for a URL in a history.\<close>

fun is_get :: "string \<Rightarrow> event \<Rightarrow> bool" where
  "is_get url (EvGet u p) = (u = url)"
| "is_get url e = False"

definition upstream_calls :: "string \<Rightarrow> event list \<Rightarrow> nat" where
  "upstream_calls url h = length (filter (is_get url) h)"

text \<open>
  The URLs the fetcher was invoked with, in order: each call of \<open>axiosWithRotation\<close>
  looks its URL up in the cache exactly once, whatever happens afterwards.
\<close>

fun lookup_of :: "event \<Rightarrow> string list" where
  "lookup_of (EvCacheGet u) = [u]"
| "lookup_of e = []"

definition lookups :: "event list \<Rightarrow> string list" where
  "lookups h = concat (map lookup_of h)"

text \<open>
  Every provider of a list fails: the body, run on each element in the state its
  predecessor left, throws.
\<close>

fun all_fail :: "('a \<Rightarrow> 's \<Rightarrow> (error + 'r) \<times> 's) \<Rightarrow> 'a list \<Rightarrow> 's \<Rightarrow> bool" where
  "all_fail body [] s = True"
| "all_fail body (u # us) s =
     (case body u s of
        (Inl e, s') \<Rightarrow> all_fail body us s'
      | (Inr r, s') \<Rightarrow> False)"

text \<open>A \<open>try\<close> block of \<open>fetchCityInfo\<close> that ends without returning a result: by an
  exception, or by reaching its end.\<close>

fun no_result :: "error + 'r option \<Rightarrow> bool" where
  "no_result (Inr (Some r)) = False"
| "no_result x = True"

text \<open>Every provider of the city-information chain fails: each \<open>try\<close> block, run in the
  state its predecessor left, ends without a result.\<close>

definition cityInfo_all_fail :: "'n world \<Rightarrow> string \<Rightarrow> 'n state \<Rightarrow> bool" where
  "cityInfo_all_fail w cityName s =
     (case geoNames_body w cityName s of (r1, s1) \<Rightarrow>
        no_result r1 \<and>
        (case wikipedia_body w cityName s1 of (r2, s2) \<Rightarrow>
           isl r2 \<and>
           (case geoCoding_body w cityName s2 of (r3, s3) \<Rightarrow> no_result r3)))"

text \<open>The geocoding step of the traffic chain gives no location: the fetch throws, or
  \<open>geoResponse.data[0]\<close> throws or is falsy.\<close>

fun no_location :: "'n world \<Rightarrow> error + 'n json \<Rightarrow> bool" where
  "no_location w (Inl e) = True"
| "no_location w (Inr d) =
     (case index0 d of Inl e \<Rightarrow> True | Inr location \<Rightarrow> \<not> truthy w location)"

text \<open>\<open>k in x\<close> for an object: whether it has the property.\<close>

fun has_prop :: "'n json \<Rightarrow> string \<Rightarrow> bool" where
  "has_prop (JObj kvs) k = (k \<in> set (map fst kvs))"
| "has_prop x k = False"

section \<open>Sample worlds\<close>

text \<open>
  Concrete surroundings for running the model. Numbers are the integers from 0 to
  2^32 - 1, which a double holds exactly: such a number is truthy and greater than zero
  when it is not 0, and its string is its decimal numeral.
\<close>

type_synonym sample_number = "32 word"

function decimal :: "int \<Rightarrow> string" where
  "decimal n =
     (if n < 10 then [''0123456789'' ! nat n]
      else decimal (n div 10) @ [''0123456789'' ! nat (n mod 10)])"
  by pat_completeness auto
termination
  by (relation "measure nat") auto

text \<open>
  \<open>s > 0\<close> for a string \<open>s\<close>: the engine reads \<open>s\<close> as a numeric literal, surrounded by
  white space (here the ASCII kinds): empty for 0, a decimal literal with an optional
  sign, fraction and exponent, \<open>Infinity\<close>, or an unsigned literal in base 16, 8 or 2;
  anything else is not a number and compares false. A positive decimal rounds to a
  double above zero when it exceeds 2^-1075, half of the least positive double.
\<close>

definition is_digit :: "char \<Rightarrow> bool" where
  "is_digit c = (c \<in> set ''0123456789'')"

definition digit_of :: "char \<Rightarrow> int" where
  "digit_of c =
     (if c \<in> set ''0123456789'' then of_char c - 48
      else if c \<in> set ''abcdef'' then of_char c - 87
      else of_char c - 55)"

definition digits_value :: "int \<Rightarrow> string \<Rightarrow> int" where
  "digits_value b ds = foldl (\<lambda>a c. a * b + digit_of c) 0 ds"

definition js_space :: "char \<Rightarrow> bool" where
  "js_space c = (c \<in> set [CHR 0x09, CHR 0x0A, CHR 0x0B, CHR 0x0C, CHR 0x0D, CHR '' ''])"

definition trim :: "string \<Rightarrow> string" where
  "trim s = rev (dropWhile js_space (rev (dropWhile js_space s)))"

definition all_digits :: "string \<Rightarrow> string \<Rightarrow> bool" where
  "all_digits allowed ds = (ds \<noteq> [] \<and> list_all (\<lambda>c. c \<in> set allowed) ds)"

definition digits_opt :: "string \<Rightarrow> int option" where
  "digits_opt d = (if all_digits ''0123456789'' d then Some (digits_value 10 d) else None)"

definition exponent_part :: "string \<Rightarrow> int option" where
  "exponent_part r =
     (case r of
        [] \<Rightarrow> Some 0
      | c # t \<Rightarrow>
          if c \<notin> set ''eE'' then None
          else if t \<noteq> [] \<and> hd t = CHR ''+'' then digits_opt (tl t)
          else if t \<noteq> [] \<and> hd t = CHR ''-'' then map_option uminus (digits_opt (tl t))
          else digits_opt t)"

definition unsigned_gt0 :: "string \<Rightarrow> bool" where
  "unsigned_gt0 s =
     (if s = ''Infinity'' then True
      else
        let ip = takeWhile is_digit s;
            r1 = dropWhile is_digit s;
            dot = (r1 \<noteq> [] \<and> hd r1 = CHR ''.'');
            fp = (if dot then takeWhile is_digit (tl r1) else []);
            r2 = (if dot then dropWhile is_digit (tl r1) else r1);
            m = digits_value 10 (ip @ fp)
        in if ip = [] \<and> fp = [] then False
           else (case exponent_part r2 of
                   None \<Rightarrow> False
                 | Some ex \<Rightarrow>
                     let e = ex - int (length fp)
                     in 0 < m \<and> (0 \<le> e \<or> 10 ^ nat (- e) < m * 2 ^ 1075)))"

definition prefixed_gt0 :: "string \<Rightarrow> bool option" where
  "prefixed_gt0 s =
     (case s of
        z # p # ds \<Rightarrow>
          if z \<noteq> CHR ''0'' then None
          else if p \<in> set ''xX'' then
            Some (all_digits ''0123456789abcdefABCDEF'' ds \<and> 0 < digits_value 16 ds)
          else if p \<in> set ''oO'' then
            Some (all_digits ''01234567'' ds \<and> 0 < digits_value 8 ds)
          else if p \<in> set ''bB'' then Some (all_digits ''01'' ds \<and> 0 < digits_value 2 ds)
          else None
      | _ \<Rightarrow> None)"

definition string_gt0 :: "string \<Rightarrow> bool" where
  "string_gt0 s =
     (let t = trim s in
      case prefixed_gt0 t of
        Some b \<Rightarrow> b
      | None \<Rightarrow>
          if t \<noteq> [] \<and> hd t = CHR ''+'' then unsigned_gt0 (tl t)
          else if t \<noteq> [] \<and> hd t = CHR ''-'' then False
          else unsigned_gt0 t)"

text \<open>
  In a sample world every environment variable is set to \<open>k\<close>, the random generator
  always picks the first candidate, every probe has the same outcome, a request takes
  one millisecond, and an upstream request succeeds exactly for the URLs of a table.
\<close>

definition sample_world ::
  "bool \<Rightarrow> proxy list \<Rightarrow> bool \<Rightarrow> (string \<times> sample_number json) list
     \<Rightarrow> sample_number world" where
  "sample_world is_production proxies probes_succeed table =
     \<lparr>production = is_production, proxyList = proxies, env = (\<lambda>name. Some ''k''),
      num_truthy = (\<lambda>n. n \<noteq> 0), num_gt0 = (\<lambda>n. n \<noteq> 0),
      num_str = (\<lambda>n. decimal (uint n)), str_gt0 = string_gt0,
      random_index = (\<lambda>h n. 0), probe_ok = (\<lambda>h p. probes_succeed),
      http_get = (\<lambda>h url p. map_of table url), latency = (\<lambda>h. 1)\<rparr>"

definition sample_proxies :: "proxy list" where
  "sample_proxies =
     [\<lparr>host = ''10.0.0.1'', port = 8080, username = None, password = None\<rparr>,
      \<lparr>host = ''10.0.0.2'', port = 3128, username = Some ''user'',
       password = Some ''secret''\<rparr>]"

definition start :: "sample_number state" where
  "start = \<lparr>cache = (\<lambda>url. None), now = 0, history = []\<rparr>"

text \<open>A production world whose upstreams answer for some cities: for Paris the
  gazetteer fails and the encyclopedia answers, for Rome the gazetteer answers with a
  population of zero and for Lima with none, for Oslo only the geocoder answers, and
  for Atlantis the geocoder answers with an empty list.\<close>

definition paris_summary :: "sample_number json" where
  "paris_summary =
     JObj [(''title'', JStr ''Paris''), (''extract'', JStr ''Capital of France''),
           (''thumbnail'', JObj [(''source'', JStr ''https://img.example/paris.jpg'')])]"

definition city_table :: "(string \<times> sample_number json) list" where
  "city_table =
     [(''https://en.wikipedia.org/api/rest_v1/page/summary/Paris'', paris_summary),
      (''http://api.geonames.org/searchJSON?q=Rome&maxRows=1&username=k'',
         JObj [(''geonames'', JArr [JObj [(''name'', JStr ''Rome''), (''population'', JNum 0),
               (''countryName'', JStr ''Italy''), (''lat'', JStr ''41.89''),
               (''lng'', JStr ''12.51'')]])]),
      (''http://api.geonames.org/searchJSON?q=Lima&maxRows=1&username=k'',
         JObj [(''geonames'', JArr [JObj [(''name'', JStr ''Lima''),
               (''countryName'', JStr ''Peru''), (''lat'', JStr ''-12.04''),
               (''lng'', JStr ''-77.03'')]])]),
      (''https://api.openweathermap.org/geo/1.0/direct?q=Atlantis&limit=1&appid=k'', JArr []),
      (''https://api.openweathermap.org/geo/1.0/direct?q=Oslo&limit=1&appid=k'',
         JArr [JObj [(''name'', JStr ''Oslo''), (''lat'', JStr ''59.91''),
               (''lon'', JStr ''10.75''), (''country'', JStr ''NO'')]]),
      (''https://api.weatherapi.com/v1/forecast.json?key=k&q=Paris&days=7'',
         JObj [(''current'', JObj [(''temp_c'', JNum 18)])]),
      (''https://gnews.io/api/v4/search?q=Paris&lang=en&token=k'',
         JObj [(''articles'', JArr [JObj [(''title'', JStr ''Summit opens'')],
                                    JObj [(''title'', JStr ''Marathon'')]])]),
      (''https://api.eventful.com/json/events/search?location=Paris&app_key=k'',
         JObj [(''events'', JObj [(''event'',
               JArr [JObj [(''title'', JStr ''Concert''), (''venue_name'', JStr ''Olympia'')]])])]),
      (''https://api.openweathermap.org/geo/1.0/direct?q=Paris&limit=1&appid=k'',
         JArr [JObj [(''name'', JStr ''Paris''), (''lat'', JStr ''48.85''),
               (''lon'', JStr ''2.35''), (''country'', JStr ''FR'')]]),
      (''https://api.tomtom.com/traffic/services/4/flowSegmentData/absolute/10/json?key=k&point=48.85,2.35'',
         JObj [(''flowSegmentData'', JObj [(''currentSpeed'', JStr ''40'')])])]"

definition city_world :: "sample_number world" where
  "city_world = sample_world True [] False city_table"

text \<open>The same upstreams outside production, behind working proxies and behind proxies
  that all fail; and a production world where every upstream is down.\<close>

definition dev_world :: "sample_number world" where
  "dev_world = sample_world False sample_proxies True city_table"

definition dev_world_no_proxy :: "sample_number world" where
  "dev_world_no_proxy = sample_world False sample_proxies False city_table"

definition down_world :: "sample_number world" where
  "down_world = sample_world True [] False []"

text \<open>A production world whose encyclopedia answers with an empty body, which axios
  hands over as the empty string.\<close>

definition empty_body_world :: "sample_number world" where
  "empty_body_world =
     sample_world True [] False
       [(''https://en.wikipedia.org/api/rest_v1/page/summary/Paris'', JStr [])]"

text \<open>Two states whose cache holds a truthy payload for a URL: one before the expiry of
  the entry, one after it.\<close>

definition cached_state :: "sample_number state" where
  "cached_state =
     \<lparr>cache = (\<lambda>url. if url = ''https://en.wikipedia.org/api/rest_v1/page/summary/Paris''
                      then Some (JStr ''cached'', 5000) else None),
      now = 1000, history = []\<rparr>"

definition expired_state :: "sample_number state" where
  "expired_state = cached_state\<lparr>now := 5001\<rparr>"

section \<open>Proxy selection: retry budget and mode\<close>

lemma probe_count_request:
  "probe_count (history (request w (EvProbe p) s)) = Suc (probe_count (history s))"
  by (simp add: request_def probe_count_def)

lemma getValidProxy_loop_all_fail:
  assumes "proxyList w \<noteq> []" and "\<forall>h p. \<not> probe_ok w h p"
  shows "fst (getValidProxy_loop w N r s)
           = Inl (Error ''No valid proxies available after maximum retries.'')
       \<and> probe_count (history (snd (getValidProxy_loop w N r s)))
           = probe_count (history s) + (N - r)"
  using assms
proof (induction w N r s rule: getValidProxy_loop.induct)
  case (1 w maxRetries retries s)
  show ?case
  proof (cases "retries < maxRetries")
    case True
    let ?p = "proxyList w ! (random_index w (history s) (length (proxyList w))
                mod length (proxyList w))"
    let ?s = "request w (EvProbe ?p) s"
    have v: "validateProxy w ?p s = (False, ?s)"
      using 1(3) by (simp add: validateProxy_def)
    have step: "getValidProxy_loop w maxRetries retries s
                  = getValidProxy_loop w maxRetries (retries + 1) ?s"
      using True 1(2) v by (subst getValidProxy_loop.simps) (simp add: Let_def)
    have ih: "fst (getValidProxy_loop w maxRetries (retries + 1) ?s)
                = Inl (Error ''No valid proxies available after maximum retries.'')
            \<and> probe_count (history (snd (getValidProxy_loop w maxRetries (retries + 1) ?s)))
                = probe_count (history ?s) + (maxRetries - (retries + 1))"
      using "1.IH"[OF _ refl refl v[symmetric] refl 1(2) 1(3)] True 1(2) by simp
    show ?thesis
      using ih True unfolding step by (simp add: probe_count_request)
  next
    case False
    then show ?thesis
      by (subst getValidProxy_loop.simps, subst (2) getValidProxy_loop.simps) simp
  qed
qed

lemma getValidProxy_loop_empty:
  "proxyList w = [] \<Longrightarrow>
     getValidProxy_loop w N r s
       = (Inl (Error ''No valid proxies available after maximum retries.''), s)"
  by (subst getValidProxy_loop.simps) simp

text \<open>
  C6. Outside production, with at least one candidate and every probe failing,
  \<open>getValidProxy(N)\<close> throws the error of the exhausted retry budget, whose message in
  the code is \<open>No valid proxies available after maximum retries.\<close>, after exactly \<open>N\<close>
  probes, hence after at most \<open>N\<close>.
\<close>

theorem getValidProxy_exhausts_retries:
  assumes "\<not> production w" and "proxyList w \<noteq> []" and "\<forall>h p. \<not> probe_ok w h p"
  shows "fst (getValidProxy w N s)
           = Inl (Error ''No valid proxies available after maximum retries.'')
       \<and> probe_count (history (snd (getValidProxy w N s))) = probe_count (history s) + N"
  using getValidProxy_loop_all_fail[OF assms(2,3), of N 0 s] assms(1)
  by (simp add: getValidProxy_def)

text \<open>Two candidates, every probe failing, a budget of three: three probes, then the
  error.\<close>

theorem getValidProxy_exhausts_retries_witness:
  "\<not> production (sample_world False sample_proxies False [])
   \<and> proxyList (sample_world False sample_proxies False []) \<noteq> []
   \<and> fst (getValidProxy (sample_world False sample_proxies False []) 3 start)
       = Inl (Error ''No valid proxies available after maximum retries.'')
   \<and> probe_count (history (snd (getValidProxy (sample_world False sample_proxies False []) 3 start)))
       = 3"
proof -
  let ?w = "sample_world False sample_proxies False []"
  have h1: "\<not> production ?w" by (simp add: sample_world_def)
  have h2: "proxyList ?w \<noteq> []" by (simp add: sample_world_def sample_proxies_def)
  have h3: "\<forall>h p. \<not> probe_ok ?w h p" by (simp add: sample_world_def)
  have "probe_count (history start) = 0" by (simp add: start_def probe_count_def)
  with getValidProxy_exhausts_retries[OF h1 h2 h3, of 3 start] h1 h2 show ?thesis by simp
qed

text \<open>
  C7. In production, \<open>getValidProxy\<close> throws at once, whatever the candidate list and the
  retry budget: the state is returned as it was, so no probe was made. The message in
  the code is \<open>Proxy rotation is not enabled in production.\<close>
\<close>

theorem getValidProxy_production:
  assumes "production w"
  shows "getValidProxy w N s
           = (Inl (Error ''Proxy rotation is not enabled in production.''), s)
       \<and> probe_count (history (snd (getValidProxy w N s))) = probe_count (history s)"
  using assms by (simp add: getValidProxy_def)

text \<open>Production with two candidates whose probes would succeed.\<close>

theorem getValidProxy_production_witness:
  "production (sample_world True sample_proxies True [])
   \<and> getValidProxy (sample_world True sample_proxies True []) 5 start
       = (Inl (Error ''Proxy rotation is not enabled in production.''), start)"
proof -
  have h: "production (sample_world True sample_proxies True [])"
    by (simp add: sample_world_def)
  from getValidProxy_production[OF h, of 5 start] h show ?thesis by simp
qed

text \<open>
  The claim C8 as written does not hold: with an empty candidate list the code has no
  error of its own. The loop is skipped and the error thrown is the one of the
  exhausted retry budget, the same as with candidates whose probes all fail.
\<close>

theorem getValidProxy_empty_list_counterexample:
  "getValidProxy (sample_world False [] False []) 5 start
     = (Inl (Error ''No valid proxies available after maximum retries.''), start)
   \<and> fst (getValidProxy (sample_world False [] False []) 5 start)
       = fst (getValidProxy (sample_world False sample_proxies False []) 5 start)
   \<and> fst (getValidProxy (sample_world False [] False []) 5 start)
       \<noteq> Inl (Error ''No proxies available.'')"
proof -
  have a: "getValidProxy (sample_world False [] False []) 5 start
     = (Inl (Error ''No valid proxies available after maximum retries.''), start)"
    by (simp add: getValidProxy_def getValidProxy_loop_empty sample_world_def)
  have b: "fst (getValidProxy (sample_world False sample_proxies False []) 5 start)
     = Inl (Error ''No valid proxies available after maximum retries.'')"
    using getValidProxy_loop_all_fail[of "sample_world False sample_proxies False []" 5 0 start]
    by (simp add: getValidProxy_def sample_world_def sample_proxies_def)
  show ?thesis using a b by simp
qed

text \<open>
  C8, amended. Outside production, with an empty candidate list, \<open>getValidProxy\<close> throws
  at once and without a probe (the state is returned as it was); the error is the one
  of the exhausted retry budget, \<open>No valid proxies available after maximum retries.\<close>
\<close>

theorem getValidProxy_empty_list:
  assumes "\<not> production w" and "proxyList w = []"
  shows "getValidProxy w N s
           = (Inl (Error ''No valid proxies available after maximum retries.''), s)"
  using assms by (simp add: getValidProxy_def getValidProxy_loop_empty)

text \<open>Outside production with no candidate.\<close>

theorem getValidProxy_empty_list_witness:
  "\<not> production (sample_world False [] True [])
   \<and> proxyList (sample_world False [] True []) = []
   \<and> getValidProxy (sample_world False [] True []) 5 start
       = (Inl (Error ''No valid proxies available after maximum retries.''), start)"
proof -
  have h1: "\<not> production (sample_world False [] True [])" by (simp add: sample_world_def)
  have h2: "proxyList (sample_world False [] True []) = []" by (simp add: sample_world_def)
  from getValidProxy_empty_list[OF h1 h2, of 5 start] h1 h2 show ?thesis by simp
qed

section \<open>The fetcher: cache, proxy and upstream request\<close>

lemma getValidProxy_loop_keeps:
  "getValidProxy_loop w N r s = (res, s') \<Longrightarrow>
     cache s' = cache s \<and> lookups (history s') = lookups (history s)
     \<and> upstream_calls u (history s') = upstream_calls u (history s)"
proof (induction w N r s rule: getValidProxy_loop.induct)
  case (1 w maxRetries retries s)
  show ?case
  proof (cases "retries < maxRetries \<and> proxyList w \<noteq> []")
    case True
    let ?p = "proxyList w ! (random_index w (history s) (length (proxyList w))
                mod length (proxyList w))"
    let ?s = "request w (EvProbe ?p) s"
    have keep: "cache ?s = cache s \<and> lookups (history ?s) = lookups (history s)
                \<and> upstream_calls u (history ?s) = upstream_calls u (history s)"
      by (simp add: request_def lookups_def upstream_calls_def)
    show ?thesis
    proof (cases "probe_ok w (history s) ?p")
      case ok: True
      have "getValidProxy_loop w maxRetries retries s = (Inr ?p, ?s)"
        using True ok by (subst getValidProxy_loop.simps) (simp add: Let_def validateProxy_def)
      with "1.prems" keep show ?thesis by simp
    next
      case bad: False
      have v: "validateProxy w ?p s = (False, ?s)"
        using bad by (simp add: validateProxy_def)
      have step: "getValidProxy_loop w maxRetries retries s
                    = getValidProxy_loop w maxRetries (retries + 1) ?s"
        using True v by (subst getValidProxy_loop.simps) (simp add: Let_def)
      from "1.IH"[OF _ refl refl v[symmetric] refl] True "1.prems" step keep
      show ?thesis by simp
    qed
  next
    case False
    then have "getValidProxy_loop w maxRetries retries s
                 = (Inl (Error ''No valid proxies available after maximum retries.''), s)"
      by (subst getValidProxy_loop.simps) auto
    with "1.prems" show ?thesis by simp
  qed
qed

lemma getValidProxy_keeps:
  "getValidProxy w N s = (res, s') \<Longrightarrow>
     cache s' = cache s \<and> lookups (history s') = lookups (history s)
     \<and> upstream_calls u (history s') = upstream_calls u (history s)"
  using getValidProxy_loop_keeps[of w N 0 s res s' u]
  by (auto simp: getValidProxy_def split: if_splits)

lemma upstream_lookups:
  "lookups (history (snd (upstream w url p msg s))) = lookups (history s)"
  by (simp add: upstream_def request_def cache_set_def lookups_def split: option.splits)

lemma axiosWithRotation_lookups:
  "lookups (history (snd (axiosWithRotation w url s))) = lookups (history s) @ [url]"
proof -
  let ?s2 = "emit (EvCacheGet url) (emit EvUserAgent s)"
  have l2: "lookups (history ?s2) = lookups (history s) @ [url]"
    by (simp add: emit_def lookups_def)
  obtain res s3 where g: "getValidProxy w 5 ?s2 = (res, s3)" by (cases "getValidProxy w 5 ?s2")
  from getValidProxy_keeps[OF g] have l3: "lookups (history s3) = lookups (history ?s2)" by simp
  show ?thesis
    using l2 l3 g
    by (auto simp: axiosWithRotation_def Let_def upstream_lookups split: sum.splits)
qed

lemma cache_get_emit:
  "cache_get (emit e s) url = cache_get s url"
  by (simp add: cache_get_def emit_def split: option.splits)

lemma emit_emit:
  "emit (EvCacheGet url) (emit EvUserAgent s)
     = s\<lparr>history := history s @ [EvUserAgent, EvCacheGet url]\<rparr>"
  by (simp add: emit_def)

lemma cache_get_hit:
  "cache s url = Some (v, expires) \<Longrightarrow> now s \<le> expires \<Longrightarrow> cache_get s url = v"
  by (simp add: cache_get_def)

lemma cache_hit:
  assumes "cache s url = Some (v, expires)" and "now s \<le> expires" and "truthy w v"
  shows "axiosWithRotation w url s
           = (Inr v, s\<lparr>history := history s @ [EvUserAgent, EvCacheGet url]\<rparr>)"
  using assms cache_get_hit[OF assms(1,2)]
  by (simp add: axiosWithRotation_def Let_def cache_get_emit emit_emit)

lemma cache_miss_production:
  assumes "\<not> truthy w (cache_get s url)" and "production w"
  shows "axiosWithRotation w url s
           = upstream w url None ''Failed to fetch data from the source.''
               (s\<lparr>history := history s @ [EvUserAgent, EvCacheGet url]\<rparr>)"
  using assms by (simp add: axiosWithRotation_def Let_def cache_get_emit emit_emit)

lemma upstream_history:
  "history (snd (upstream w url p msg s)) = history s @ [EvGet url p]"
  by (simp add: upstream_def request_def cache_set_def split: option.splits)

lemma upstream_success:
  "upstream w url p msg s = (Inr d, s1) \<Longrightarrow>
     cache s1 url = Some (d, now s1 + stdTTL * 1000)"
  by (auto simp: upstream_def request_def cache_set_def split: option.splits)

lemma success_leaves_entry:
  assumes "axiosWithRotation w url s = (Inr d, s1)" and "truthy w d"
  shows "\<exists>expires. cache s1 url = Some (d, expires) \<and> now s1 \<le> expires
           \<and> (\<not> truthy w (cache_get s url) \<longrightarrow> expires = now s1 + stdTTL * 1000)"
proof (cases "truthy w (cache_get s url)")
  case True
  then obtain v e where c: "cache s url = Some (v, e)" and v: "cache_get s url = v" and "\<not> e < now s"
    by (auto simp: cache_get_def split: option.splits if_splits)
  with assms True show ?thesis
    by (auto simp: axiosWithRotation_def Let_def cache_get_emit emit_emit)
next
  case False
  from assms(1) False obtain p msg s2 where "upstream w url p msg s2 = (Inr d, s1)"
    by (auto simp: axiosWithRotation_def Let_def cache_get_emit
             split: if_splits prod.splits sum.splits)
  from upstream_success[OF this] False show ?thesis by simp
qed

lemma axiosWithRotation_upstream_calls:
  "upstream_calls u (history (snd (axiosWithRotation w url s))) \<le> upstream_calls u (history s) + 1"
proof -
  let ?s2 = "s\<lparr>history := history s @ [EvUserAgent, EvCacheGet url]\<rparr>"
  have l2: "upstream_calls u (history ?s2) = upstream_calls u (history s)"
    by (simp add: upstream_calls_def)
  obtain res s3 where g: "getValidProxy w 5 ?s2 = (res, s3)" by (cases "getValidProxy w 5 ?s2")
  from getValidProxy_keeps[OF g]
  have l3: "upstream_calls u (history s3) = upstream_calls u (history ?s2)" by simp
  have up: "\<And>p msg s'. upstream_calls u (history (snd (upstream w url p msg s')))
              \<le> upstream_calls u (history s') + 1"
    by (simp add: upstream_history upstream_calls_def)
  show ?thesis
    using l2 l3 g up[of None _ ?s2] up[of _ _ s3]
    by (auto simp: axiosWithRotation_def Let_def emit_emit split: sum.splits)
qed

lemma cache_miss_proxy:
  assumes "\<not> truthy w (cache_get s url)" and "\<not> production w"
    and "getValidProxy w 5 (s\<lparr>history := history s @ [EvUserAgent, EvCacheGet url]\<rparr>) = (Inr p, s3)"
  shows "axiosWithRotation w url s
           = upstream w url (Some p)
               ''Failed to fetch data from the source after proxy retries.'' s3"
  using assms by (simp add: axiosWithRotation_def Let_def cache_get_emit emit_emit)

lemma cache_miss_no_proxy:
  assumes "\<not> truthy w (cache_get s url)" and "\<not> production w"
    and "getValidProxy w 5 (s\<lparr>history := history s @ [EvUserAgent, EvCacheGet url]\<rparr>) = (Inl e, s3)"
  shows "axiosWithRotation w url s
           = (Inl (Error ''Failed to fetch data from the source after proxy retries.''), s3)"
  using assms by (simp add: axiosWithRotation_def Let_def cache_get_emit emit_emit)

lemma cache_get_expired:
  "cache s url = Some (v, expires) \<Longrightarrow> expires < now s \<Longrightarrow> cache_get s url = JUndef"
  by (simp add: cache_get_def)

text \<open>
  C5, amended. When \<open>axiosWithRotation(url)\<close> finds an unexpired cache entry with a
  truthy payload, it returns that payload; it selects no proxy (no probe) and makes no
  upstream request. The only events of the call are the creation of the user-agent
  object, which the code performs first, on every call, and the cache lookup.
\<close>

theorem cache_hit_skips_proxy_and_network:
  assumes "cache s url = Some (v, expires)" and "now s \<le> expires" and "truthy w v"
  shows "axiosWithRotation w url s
           = (Inr v, s\<lparr>history := history s @ [EvUserAgent, EvCacheGet url]\<rparr>)
       \<and> probe_count (history (snd (axiosWithRotation w url s))) = probe_count (history s)
       \<and> upstream_calls u (history (snd (axiosWithRotation w url s)))
           = upstream_calls u (history s)"
  using cache_hit[OF assms] by (simp add: probe_count_def upstream_calls_def)

text \<open>A cached summary read 4 seconds before its expiry.\<close>

theorem cache_hit_skips_proxy_and_network_witness:
  "cache cached_state ''https://en.wikipedia.org/api/rest_v1/page/summary/Paris''
     = Some (JStr ''cached'', 5000)
   \<and> now cached_state \<le> 5000
   \<and> truthy city_world (JStr ''cached'')
   \<and> axiosWithRotation city_world
        ''https://en.wikipedia.org/api/rest_v1/page/summary/Paris'' cached_state
       = (Inr (JStr ''cached''),
          cached_state\<lparr>history :=
            [EvUserAgent,
             EvCacheGet ''https://en.wikipedia.org/api/rest_v1/page/summary/Paris'']\<rparr>)"
proof -
  let ?u = "''https://en.wikipedia.org/api/rest_v1/page/summary/Paris''"
  have h1: "cache cached_state ?u = Some (JStr ''cached'', 5000)"
    by (simp add: cached_state_def)
  have h2: "now cached_state \<le> 5000" by (simp add: cached_state_def)
  have h3: "truthy city_world (JStr ''cached'')" by simp
  have h0: "history cached_state = []" by (simp add: cached_state_def)
  from cache_hit_skips_proxy_and_network[OF h1 h2 h3] h0 h1 h2 h3 show ?thesis by simp
qed

text \<open>
  The claim C5 as written does not hold: on a cache hit the call has already generated a
  user agent, since \<open>new UserAgent()\<close> is the first statement of the function, before
  the lookup.
\<close>

theorem cache_hit_generates_user_agent_counterexample:
  "cache cached_state ''https://en.wikipedia.org/api/rest_v1/page/summary/Paris''
     = Some (JStr ''cached'', 5000)
   \<and> now cached_state = 1000
   \<and> history cached_state = []
   \<and> fst (axiosWithRotation city_world
        ''https://en.wikipedia.org/api/rest_v1/page/summary/Paris'' cached_state)
       = Inr (JStr ''cached'')
   \<and> history (snd (axiosWithRotation city_world
        ''https://en.wikipedia.org/api/rest_v1/page/summary/Paris'' cached_state))
       = [EvUserAgent, EvCacheGet ''https://en.wikipedia.org/api/rest_v1/page/summary/Paris'']"
proof -
  let ?u = "''https://en.wikipedia.org/api/rest_v1/page/summary/Paris''"
  have h1: "cache cached_state ?u = Some (JStr ''cached'', 5000)"
    by (simp add: cached_state_def)
  have h2: "now cached_state \<le> 5000" by (simp add: cached_state_def)
  have h3: "truthy city_world (JStr ''cached'')" by simp
  have h0: "history cached_state = []" "now cached_state = 1000"
    by (simp_all add: cached_state_def)
  from cache_hit[OF h1 h2 h3] h0 h1 show ?thesis by simp
qed

text \<open>
  C4, amended. Once a fetch of a URL has returned a truthy payload, the cache holds that
  payload under the URL, the fetch itself having made at most one upstream request, and
  with the expiry 3600 seconds after the insertion when the payload came from upstream.
  A later fetch of the URL, any time up to the expiry, returns the payload without an
  upstream request. A fetch after the expiry is not served from the cache: in
  production it makes one new upstream request; outside production it makes one when a
  proxy has been selected, and when none is selected it fails without an upstream
  request.
\<close>

theorem second_fetch_served_from_cache:
  assumes "axiosWithRotation w url s = (Inr d, s1)" and "truthy w d"
  shows "\<exists>expires.
           cache s1 url = Some (d, expires) \<and> now s1 \<le> expires
         \<and> upstream_calls url (history s1) \<le> upstream_calls url (history s) + 1
         \<and> (\<not> truthy w (cache_get s url) \<longrightarrow> expires = now s1 + stdTTL * 1000)
         \<and> (\<forall>t h. t \<le> expires \<longrightarrow>
               axiosWithRotation w url (s1\<lparr>now := t, history := h\<rparr>)
                 = (Inr d, s1\<lparr>now := t, history := h @ [EvUserAgent, EvCacheGet url]\<rparr>))
         \<and> (\<forall>t h. expires < t \<and> production w \<longrightarrow>
               history (snd (axiosWithRotation w url (s1\<lparr>now := t, history := h\<rparr>)))
                 = h @ [EvUserAgent, EvCacheGet url, EvGet url None])
         \<and> (\<forall>t h p s3. expires < t \<and> \<not> production w
                \<and> getValidProxy w 5
                     (s1\<lparr>now := t, history := h @ [EvUserAgent, EvCacheGet url]\<rparr>) = (Inr p, s3)
                \<longrightarrow>
               history (snd (axiosWithRotation w url (s1\<lparr>now := t, history := h\<rparr>)))
                 = history s3 @ [EvGet url (Some p)])
         \<and> (\<forall>t h e s3. expires < t \<and> \<not> production w
                \<and> getValidProxy w 5
                     (s1\<lparr>now := t, history := h @ [EvUserAgent, EvCacheGet url]\<rparr>) = (Inl e, s3)
                \<longrightarrow>
               axiosWithRotation w url (s1\<lparr>now := t, history := h\<rparr>)
                 = (Inl (Error ''Failed to fetch data from the source after proxy retries.''), s3)
               \<and> upstream_calls url (history s3) = upstream_calls url h)"
proof -
  from success_leaves_entry[OF assms] obtain expires where
    e: "cache s1 url = Some (d, expires)" "now s1 \<le> expires"
       "\<not> truthy w (cache_get s url) \<longrightarrow> expires = now s1 + stdTTL * 1000"
    by blast
  have calls: "upstream_calls url (history s1) \<le> upstream_calls url (history s) + 1"
    using axiosWithRotation_upstream_calls[of url w url s] assms(1) by simp
  have hit: "axiosWithRotation w url (s1\<lparr>now := t, history := h\<rparr>)
               = (Inr d, s1\<lparr>now := t, history := h @ [EvUserAgent, EvCacheGet url]\<rparr>)"
    if "t \<le> expires" for t h
    using cache_hit[of "s1\<lparr>now := t, history := h\<rparr>" url d expires w] e(1) that assms(2)
    by simp
  have miss: "\<not> truthy w (cache_get (s1\<lparr>now := t, history := h\<rparr>) url)" if "expires < t" for t h
    using cache_get_expired[of "s1\<lparr>now := t, history := h\<rparr>" url d expires] e(1) that by simp
  have prod: "history (snd (axiosWithRotation w url (s1\<lparr>now := t, history := h\<rparr>)))
                = h @ [EvUserAgent, EvCacheGet url, EvGet url None]"
    if "expires < t" "production w" for t h
    using cache_miss_production[OF miss[OF that(1)] that(2)] by (simp add: upstream_history)
  have dev: "history (snd (axiosWithRotation w url (s1\<lparr>now := t, history := h\<rparr>)))
                = history s3 @ [EvGet url (Some p)]"
    if "expires < t" "\<not> production w"
       "getValidProxy w 5 (s1\<lparr>now := t, history := h @ [EvUserAgent, EvCacheGet url]\<rparr>) = (Inr p, s3)"
    for t h p s3
    using cache_miss_proxy[of w "s1\<lparr>now := t, history := h\<rparr>" url p s3]
      miss[OF that(1), of h] that(2,3)
    by (simp add: upstream_history)
  have none: "axiosWithRotation w url (s1\<lparr>now := t, history := h\<rparr>)
                = (Inl (Error ''Failed to fetch data from the source after proxy retries.''), s3)
              \<and> upstream_calls url (history s3) = upstream_calls url h"
    if "expires < t" "\<not> production w"
       "getValidProxy w 5 (s1\<lparr>now := t, history := h @ [EvUserAgent, EvCacheGet url]\<rparr>) = (Inl e, s3)"
    for t h e s3
  proof -
    have a: "axiosWithRotation w url (s1\<lparr>now := t, history := h\<rparr>)
               = (Inl (Error ''Failed to fetch data from the source after proxy retries.''), s3)"
      using cache_miss_no_proxy[of w "s1\<lparr>now := t, history := h\<rparr>" url e s3]
        miss[OF that(1), of h] that(2,3)
      by simp
    have b: "upstream_calls url (history s3) = upstream_calls url h"
      using getValidProxy_keeps[OF that(3), of url] by (simp add: upstream_calls_def)
    from a b show ?thesis by simp
  qed
  show ?thesis
  proof (rule exI[of _ expires], intro conjI)
    show "cache s1 url = Some (d, expires)" by (rule e(1))
    show "now s1 \<le> expires" by (rule e(2))
    show "upstream_calls url (history s1) \<le> upstream_calls url (history s) + 1"
      by (rule calls)
    show "\<not> truthy w (cache_get s url) \<longrightarrow> expires = now s1 + stdTTL * 1000"
      by (rule e(3))
    show "\<forall>t h. t \<le> expires \<longrightarrow>
            axiosWithRotation w url (s1\<lparr>now := t, history := h\<rparr>)
              = (Inr d, s1\<lparr>now := t, history := h @ [EvUserAgent, EvCacheGet url]\<rparr>)"
      using hit by blast
    show "\<forall>t h. expires < t \<and> production w \<longrightarrow>
            history (snd (axiosWithRotation w url (s1\<lparr>now := t, history := h\<rparr>)))
              = h @ [EvUserAgent, EvCacheGet url, EvGet url None]"
      using prod by blast
    show "\<forall>t h p s3. expires < t \<and> \<not> production w
            \<and> getValidProxy w 5
                 (s1\<lparr>now := t, history := h @ [EvUserAgent, EvCacheGet url]\<rparr>) = (Inr p, s3)
            \<longrightarrow>
            history (snd (axiosWithRotation w url (s1\<lparr>now := t, history := h\<rparr>)))
              = history s3 @ [EvGet url (Some p)]"
      using dev by blast
    show "\<forall>t h e s3. expires < t \<and> \<not> production w
            \<and> getValidProxy w 5
                 (s1\<lparr>now := t, history := h @ [EvUserAgent, EvCacheGet url]\<rparr>) = (Inl e, s3)
            \<longrightarrow>
            axiosWithRotation w url (s1\<lparr>now := t, history := h\<rparr>)
              = (Inl (Error ''Failed to fetch data from the source after proxy retries.''), s3)
            \<and> upstream_calls url (history s3) = upstream_calls url h"
      using none by blast
  qed
qed

lemmas world_defs = city_world_def dev_world_def dev_world_no_proxy_def down_world_def
  empty_body_world_def
  sample_world_def sample_proxies_def

lemma paris_truthy: "truthy w paris_summary" by (simp add: paris_summary_def)

lemma city_world_first:
  "axiosWithRotation city_world (wikipediaUrl ''Paris'') start
     = (Inr paris_summary,
        \<lparr>cache = (cache start)(wikipediaUrl ''Paris'' \<mapsto> (paris_summary, 3600001)), now = 1,
         history = [EvUserAgent, EvCacheGet (wikipediaUrl ''Paris''),
                    EvGet (wikipediaUrl ''Paris'') None]\<rparr>)"
proof -
  have m: "\<not> truthy city_world (cache_get start (wikipediaUrl ''Paris''))"
    by (simp add: cache_get_def start_def)
  have p: "production city_world" by (simp add: world_defs)
  have g: "http_get city_world h (wikipediaUrl ''Paris'') None = Some paris_summary" for h
    by (simp add: world_defs city_table_def wikipediaUrl_def)
  have l: "latency city_world h = 1" for h by (simp add: world_defs)
  show ?thesis
    unfolding cache_miss_production[OF m p]
    by (simp add: upstream_def g l request_def cache_set_def start_def stdTTL_def)
qed

lemma dev_world_proxy:
  "getValidProxy dev_world 5 s
     = (Inr (hd sample_proxies), request dev_world (EvProbe (hd sample_proxies)) s)"
  by (simp add: getValidProxy_def getValidProxy_loop.simps[of _ _ 0] validateProxy_def
        world_defs Let_def)

lemma dev_world_first:
  "axiosWithRotation dev_world (wikipediaUrl ''Paris'') start
     = (Inr paris_summary,
        \<lparr>cache = (cache start)(wikipediaUrl ''Paris'' \<mapsto> (paris_summary, 3600002)), now = 2,
         history = [EvUserAgent, EvCacheGet (wikipediaUrl ''Paris''),
                    EvProbe (hd sample_proxies),
                    EvGet (wikipediaUrl ''Paris'') (Some (hd sample_proxies))]\<rparr>)"
proof -
  have m: "\<not> truthy dev_world (cache_get start (wikipediaUrl ''Paris''))"
    by (simp add: cache_get_def start_def)
  have p: "\<not> production dev_world" by (simp add: world_defs)
  have g: "http_get dev_world h (wikipediaUrl ''Paris'') q = Some paris_summary" for h q
    by (simp add: world_defs city_table_def wikipediaUrl_def)
  have l: "latency dev_world h = 1" for h by (simp add: world_defs)
  show ?thesis
    unfolding cache_miss_proxy[OF m p dev_world_proxy]
    by (simp add: upstream_def g l request_def cache_set_def start_def stdTTL_def)
qed

text \<open>The summary of Paris fetched at time 0, and fetched again at the last millisecond
  of the entry's life and after it, in production and behind a working proxy; and a
  cached summary fetched after its expiry behind proxies that all fail.\<close>

theorem second_fetch_served_from_cache_witness:
  "fst (axiosWithRotation city_world (wikipediaUrl ''Paris'') start) = Inr paris_summary
   \<and> truthy city_world paris_summary
   \<and> cache (snd (axiosWithRotation city_world (wikipediaUrl ''Paris'') start))
        (wikipediaUrl ''Paris'') = Some (paris_summary, 3600001)
   \<and> fst (axiosWithRotation city_world (wikipediaUrl ''Paris'')
        (snd (axiosWithRotation city_world (wikipediaUrl ''Paris'') start)
           \<lparr>now := 3600001, history := []\<rparr>)) = Inr paris_summary
   \<and> history (snd (axiosWithRotation city_world (wikipediaUrl ''Paris'')
        (snd (axiosWithRotation city_world (wikipediaUrl ''Paris'') start)
           \<lparr>now := 3600001, history := []\<rparr>)))
       = [EvUserAgent, EvCacheGet (wikipediaUrl ''Paris'')]
   \<and> history (snd (axiosWithRotation city_world (wikipediaUrl ''Paris'')
        (snd (axiosWithRotation city_world (wikipediaUrl ''Paris'') start)
           \<lparr>now := 3600002, history := []\<rparr>)))
       = [EvUserAgent, EvCacheGet (wikipediaUrl ''Paris''), EvGet (wikipediaUrl ''Paris'') None]
   \<and> history (snd (axiosWithRotation dev_world (wikipediaUrl ''Paris'')
        (snd (axiosWithRotation dev_world (wikipediaUrl ''Paris'') start)
           \<lparr>now := 3600003, history := []\<rparr>)))
       = [EvUserAgent, EvCacheGet (wikipediaUrl ''Paris''), EvProbe (hd sample_proxies),
          EvGet (wikipediaUrl ''Paris'') (Some (hd sample_proxies))]
   \<and> fst (axiosWithRotation dev_world_no_proxy (wikipediaUrl ''Paris'') cached_state)
       = Inr (JStr ''cached'')
   \<and> fst (axiosWithRotation dev_world_no_proxy (wikipediaUrl ''Paris'')
        (snd (axiosWithRotation dev_world_no_proxy (wikipediaUrl ''Paris'') cached_state)
           \<lparr>now := 5001, history := []\<rparr>))
       = Inl (Error ''Failed to fetch data from the source after proxy retries.'')
   \<and> upstream_calls (wikipediaUrl ''Paris'')
        (history (snd (axiosWithRotation dev_world_no_proxy (wikipediaUrl ''Paris'')
          (snd (axiosWithRotation dev_world_no_proxy (wikipediaUrl ''Paris'') cached_state)
             \<lparr>now := 5001, history := []\<rparr>)))) = 0"
proof -
  let ?u = "wikipediaUrl ''Paris''"
  define s1 where "s1 = snd (axiosWithRotation city_world ?u start)"
  define s1' where "s1' = snd (axiosWithRotation dev_world ?u start)"
  define s1c where "s1c = snd (axiosWithRotation dev_world_no_proxy ?u cached_state)"
  have run: "axiosWithRotation city_world ?u start = (Inr paris_summary, s1)"
    unfolding s1_def by (simp add: city_world_first)
  have run': "axiosWithRotation dev_world ?u start = (Inr paris_summary, s1')"
    unfolding s1'_def by (simp add: dev_world_first)
  have c: "cache s1 ?u = Some (paris_summary, 3600001)"
    unfolding s1_def by (simp add: city_world_first)
  have c': "cache s1' ?u = Some (paris_summary, 3600002)"
    unfolding s1'_def by (simp add: dev_world_first)
  have p: "production city_world" "\<not> production dev_world" "\<not> production dev_world_no_proxy"
    by (simp_all add: world_defs)
  note T = second_fetch_served_from_cache[OF run paris_truthy]
  from T c
  have hit: "axiosWithRotation city_world ?u (s1\<lparr>now := 3600001, history := []\<rparr>)
               = (Inr paris_summary, s1\<lparr>now := 3600001, history := [] @ [EvUserAgent, EvCacheGet ?u]\<rparr>)"
    and miss: "history (snd (axiosWithRotation city_world ?u (s1\<lparr>now := 3600002, history := []\<rparr>)))
               = [] @ [EvUserAgent, EvCacheGet ?u, EvGet ?u None]"
    using p(1) by auto
  have px: "getValidProxy dev_world 5
              (s1'\<lparr>now := 3600003, history := [] @ [EvUserAgent, EvCacheGet ?u]\<rparr>)
            = (Inr (hd sample_proxies),
               request dev_world (EvProbe (hd sample_proxies))
                 (s1'\<lparr>now := 3600003, history := [] @ [EvUserAgent, EvCacheGet ?u]\<rparr>))"
    by (rule dev_world_proxy)
  from second_fetch_served_from_cache[OF run' paris_truthy] c' p(2) px
  have dev: "history (snd (axiosWithRotation dev_world ?u (s1'\<lparr>now := 3600003, history := []\<rparr>)))
               = history (request dev_world (EvProbe (hd sample_proxies))
                    (s1'\<lparr>now := 3600003, history := [] @ [EvUserAgent, EvCacheGet ?u]\<rparr>))
                 @ [EvGet ?u (Some (hd sample_proxies))]"
    by auto
  have cc: "cache cached_state ?u = Some (JStr ''cached'', 5000)"
    by (simp add: cached_state_def wikipediaUrl_def)
  have cn: "now cached_state \<le> 5000" by (simp add: cached_state_def)
  have ct: "truthy dev_world_no_proxy (JStr ''cached'')" by simp
  have runc: "axiosWithRotation dev_world_no_proxy ?u cached_state = (Inr (JStr ''cached''), s1c)"
    unfolding s1c_def by (simp add: cache_hit[OF cc cn ct])
  have c1c: "cache s1c ?u = Some (JStr ''cached'', 5000)"
    unfolding s1c_def by (simp add: cache_hit[OF cc cn ct] cc)
  let ?s2 = "s1c\<lparr>now := 5001, history := [] @ [EvUserAgent, EvCacheGet ?u]\<rparr>"
  define s3 where "s3 = snd (getValidProxy dev_world_no_proxy 5 ?s2)"
  have pl: "proxyList dev_world_no_proxy \<noteq> []" "\<forall>h q. \<not> probe_ok dev_world_no_proxy h q"
    by (simp_all add: world_defs)
  have gv: "getValidProxy dev_world_no_proxy 5 ?s2
              = (Inl (Error ''No valid proxies available after maximum retries.''), s3)"
    unfolding s3_def
    using getValidProxy_loop_all_fail[OF pl, of 5 0 ?s2] p(3)
    by (simp add: getValidProxy_def prod_eq_iff)
  from second_fetch_served_from_cache[OF runc ct] obtain ex where
    X: "cache s1c ?u = Some (JStr ''cached'', ex)"
    and N: "\<forall>t h e s3. ex < t \<and> \<not> production dev_world_no_proxy
              \<and> getValidProxy dev_world_no_proxy 5
                   (s1c\<lparr>now := t, history := h @ [EvUserAgent, EvCacheGet ?u]\<rparr>) = (Inl e, s3)
              \<longrightarrow>
              axiosWithRotation dev_world_no_proxy ?u (s1c\<lparr>now := t, history := h\<rparr>)
                = (Inl (Error ''Failed to fetch data from the source after proxy retries.''), s3)
              \<and> upstream_calls ?u (history s3) = upstream_calls ?u h"
    by blast
  have lt: "ex < 5001" using X c1c by simp
  from N[rule_format, OF conjI[OF lt conjI[OF p(3) gv]]]
  have none: "axiosWithRotation dev_world_no_proxy ?u (s1c\<lparr>now := 5001, history := []\<rparr>)
                = (Inl (Error ''Failed to fetch data from the source after proxy retries.''), s3)
              \<and> upstream_calls ?u (history s3) = upstream_calls ?u []" .
  have z: "upstream_calls ?u [] = 0" by (simp add: upstream_calls_def)
  have n1: "fst (axiosWithRotation dev_world_no_proxy ?u (s1c\<lparr>now := 5001, history := []\<rparr>))
              = Inl (Error ''Failed to fetch data from the source after proxy retries.'')"
    using none[THEN conjunct1] by simp
  have n2: "upstream_calls ?u (history (snd (axiosWithRotation dev_world_no_proxy ?u
              (s1c\<lparr>now := 5001, history := []\<rparr>)))) = 0"
    using none z by simp
  have r0: "fst (axiosWithRotation dev_world_no_proxy ?u cached_state) = Inr (JStr ''cached'')"
    using runc by simp
  show ?thesis
    using run c hit miss dev paris_truthy[of city_world] r0 n1 n2
    unfolding s1_def[symmetric] s1'_def[symmetric] s1c_def[symmetric]
    by (simp add: request_def)
qed

text \<open>
  The claim C4 as written does not hold. Outside production a fetch after the expiry
  makes no upstream request when no proxy passes its probe. And within the life of an
  entry a second fetch can call upstream again: an empty body is stored, but the test
  \<open>if (cachedData)\<close> takes the empty string for a miss.
\<close>

theorem cache_window_counterexample:
  "fst (axiosWithRotation empty_body_world (wikipediaUrl ''Paris'') start) = Inr (JStr [])
   \<and> cache (snd (axiosWithRotation empty_body_world (wikipediaUrl ''Paris'') start))
        (wikipediaUrl ''Paris'') = Some (JStr [], 3600001)
   \<and> now (snd (axiosWithRotation empty_body_world (wikipediaUrl ''Paris'') start)) = 1
   \<and> upstream_calls (wikipediaUrl ''Paris'')
        (history (snd (axiosWithRotation empty_body_world (wikipediaUrl ''Paris'')
           (snd (axiosWithRotation empty_body_world (wikipediaUrl ''Paris'') start))))) = 2
   \<and> cache expired_state (wikipediaUrl ''Paris'') = Some (JStr ''cached'', 5000)
   \<and> now expired_state = 5001
   \<and> upstream_calls (wikipediaUrl ''Paris'')
        (history (snd (axiosWithRotation dev_world_no_proxy (wikipediaUrl ''Paris'')
           expired_state))) = 0"
proof -
  let ?u = "wikipediaUrl ''Paris''"
  let ?w = empty_body_world
  let ?s1 = "\<lparr>cache = (cache start)(?u \<mapsto> (JStr [], 3600001)), now = 1,
              history = [EvUserAgent, EvCacheGet ?u, EvGet ?u None]\<rparr> :: sample_number state"
  have p: "production ?w" by (simp add: world_defs)
  have g: "http_get ?w h ?u None = Some (JStr [])" for h
    by (simp add: world_defs wikipediaUrl_def)
  have l: "latency ?w h = 1" for h by (simp add: world_defs)
  have m0: "\<not> truthy ?w (cache_get start ?u)" by (simp add: cache_get_def start_def)
  have r1: "axiosWithRotation ?w ?u start = (Inr (JStr []), ?s1)"
    unfolding cache_miss_production[OF m0 p]
    by (simp add: upstream_def g l request_def cache_set_def start_def stdTTL_def)
  have m1: "\<not> truthy ?w (cache_get ?s1 ?u)" by (simp add: cache_get_def)
  have r2: "history (snd (axiosWithRotation ?w ?u ?s1))
              = [EvUserAgent, EvCacheGet ?u, EvGet ?u None,
                 EvUserAgent, EvCacheGet ?u, EvGet ?u None]"
    unfolding cache_miss_production[OF m1 p] by (simp add: upstream_history)
  have a: "fst (axiosWithRotation ?w ?u start) = Inr (JStr [])"
    and b: "cache (snd (axiosWithRotation ?w ?u start)) ?u = Some (JStr [], 3600001)"
    and c: "now (snd (axiosWithRotation ?w ?u start)) = 1"
    by (simp_all add: r1)
  have d: "upstream_calls ?u (history (snd (axiosWithRotation ?w ?u
             (snd (axiosWithRotation ?w ?u start))))) = 2"
    using r2 by (simp add: r1 upstream_calls_def)
  have e1: "cache expired_state ?u = Some (JStr ''cached'', 5000)"
    by (simp add: expired_state_def cached_state_def wikipediaUrl_def)
  have e2: "now expired_state = 5001" by (simp add: expired_state_def)
  have e3: "history expired_state = []" by (simp add: expired_state_def cached_state_def)
  have em: "\<not> truthy dev_world_no_proxy (cache_get expired_state ?u)"
    using cache_get_expired[OF e1] e2 by simp
  have np: "\<not> production dev_world_no_proxy" by (simp add: world_defs)
  let ?s2 = "expired_state\<lparr>history := history expired_state @ [EvUserAgent, EvCacheGet ?u]\<rparr>"
  have pl: "proxyList dev_world_no_proxy \<noteq> []" "\<forall>h q. \<not> probe_ok dev_world_no_proxy h q"
    by (simp_all add: world_defs)
  obtain e s3 where gv: "getValidProxy dev_world_no_proxy 5 ?s2 = (Inl e, s3)"
    using getValidProxy_loop_all_fail[OF pl, of 5 0 ?s2] np
    by (cases "getValidProxy dev_world_no_proxy 5 ?s2") (auto simp: getValidProxy_def)
  from getValidProxy_keeps[OF gv, of ?u]
  have "upstream_calls ?u (history s3) = 0" by (simp add: e3 upstream_calls_def)
  then have f: "upstream_calls ?u (history (snd (axiosWithRotation dev_world_no_proxy ?u
                  expired_state))) = 0"
    unfolding cache_miss_no_proxy[OF em np gv] by simp
  show ?thesis using a b c d e1 e2 f by simp
qed

section \<open>Fallback chains: order, first success, exhaustion\<close>

lemma fetch_then_lookups:
  "lookups (history (snd (fetch_then w url k s))) = lookups (history s) @ [url]"
  using axiosWithRotation_lookups[of w url s]
  by (auto simp: fetch_then_def split: prod.splits sum.splits)

lemma all_fail_try_each:
  "all_fail body us s \<Longrightarrow> fst (try_each body us s) = None"
  by (induction us arbitrary: s) (auto split: prod.splits sum.splits)

lemma try_each_append:
  "all_fail body us1 s \<Longrightarrow>
     try_each body (us1 @ us2) s = try_each body us2 (snd (try_each body us1 s))"
  by (induction us1 arbitrary: s) (auto split: prod.splits sum.splits)

lemma try_each_lookups:
  assumes "\<And>u s. lookups (history (snd (body u s))) = lookups (history s) @ [u]"
  shows "all_fail body us s \<Longrightarrow>
           lookups (history (snd (try_each body us s))) = lookups (history s) @ us"
proof (induction us arbitrary: s)
  case Nil
  then show ?case by simp
next
  case (Cons u us)
  obtain x s' where b: "body u s = (x, s')" by (cases "body u s")
  with Cons.prems obtain e where x: "x = Inl e" and af: "all_fail body us s'"
    by (cases x) auto
  from assms[of u s] b have "lookups (history s') = lookups (history s) @ [u]" by simp
  with Cons.IH[OF af] b x show ?case by simp
qed

lemma try_each_first_success:
  assumes "all_fail body us1 s"
    and "body u (snd (try_each body us1 s)) = (Inr r, s')"
  shows "try_each body (us1 @ u # us2) s = (Some r, s')"
  using assms by (simp add: try_each_append)

lemma weather_body_lookups:
  "lookups (history (snd (weather_body w u s))) = lookups (history s) @ [u]"
  by (simp add: weather_body_def fetch_then_lookups)

lemma news_body_lookups:
  "lookups (history (snd (news_body w u s))) = lookups (history s) @ [u]"
  by (simp add: news_body_def fetch_then_lookups)

lemma loop_first_success:
  assumes body: "\<And>u s. lookups (history (snd (body u s))) = lookups (history s) @ [u]"
    and "all_fail body us1 s"
    and "body u (snd (try_each body us1 s)) = (Inr r, s')"
  shows "try_each body (us1 @ u # us2) s = (Some r, s')
       \<and> lookups (history s') = lookups (history s) @ us1 @ [u]"
proof -
  have "lookups (history s') = lookups (history (snd (try_each body us1 s))) @ [u]"
    using body[of u "snd (try_each body us1 s)"] assms(3) by simp
  with try_each_lookups[of body us1 s, OF body assms(2)]
    try_each_first_success[OF assms(2,3)]
  show ?thesis by simp
qed

text \<open>Each chain catches every exception of its providers and returns a result.\<close>

lemma fetchWeatherData_returns: "\<exists>r. fst (fetchWeatherData w c s) = Inr r"
  by (simp add: fetchWeatherData_def split: prod.splits option.splits)

lemma fetchNewsData_returns: "\<exists>r. fst (fetchNewsData w c s) = Inr r"
  by (simp add: fetchNewsData_def split: prod.splits option.splits)

lemma fetchEventsData_returns: "\<exists>r. fst (fetchEventsData w c s) = Inr r"
  by (simp add: fetchEventsData_def split: prod.splits sum.splits)

lemma fetchTrafficData_returns: "\<exists>r. fst (fetchTrafficData w c s) = Inr r"
  by (simp add: fetchTrafficData_def split: prod.splits sum.splits)

lemma fetchCityInfo_returns: "\<exists>r. fst (fetchCityInfo w c s) = Inr r"
  by (simp add: fetchCityInfo_def split: prod.splits sum.splits option.splits)

lemma weather_exhausted:
  "all_fail (weather_body w) (weatherUrls w c) s \<Longrightarrow>
     fst (fetchWeatherData w c s) = Inr weather_unavailable"
  using all_fail_try_each[of "weather_body w" "weatherUrls w c" s]
  by (auto simp: fetchWeatherData_def split: prod.splits option.splits)

lemma news_exhausted:
  "all_fail (news_body w) (newsUrls w c) s \<Longrightarrow>
     fst (fetchNewsData w c s) = Inr news_unavailable"
  using all_fail_try_each[of "news_body w" "newsUrls w c" s]
  by (auto simp: fetchNewsData_def split: prod.splits option.splits)

lemma events_exhausted:
  "isl (fst (events_body w c s)) \<Longrightarrow> fst (fetchEventsData w c s) = Inr events_unavailable"
  by (auto simp: fetchEventsData_def split: prod.splits sum.splits)

lemma traffic_exhausted:
  "isl (fst (traffic_body w c s)) \<Longrightarrow> fst (fetchTrafficData w c s) = Inr traffic_unavailable"
  by (auto simp: fetchTrafficData_def split: prod.splits sum.splits)

lemma no_result_cases: "no_result x \<longleftrightarrow> (\<forall>r. x \<noteq> Inr (Some r))"
  by (cases x rule: no_result.cases) auto

lemma city_exhausted:
  "cityInfo_all_fail w c s \<Longrightarrow> fst (fetchCityInfo w c s) = Inr city_unavailable"
  by (auto simp: cityInfo_all_fail_def fetchCityInfo_def no_result_cases
           split: prod.splits sum.splits option.splits)

text \<open>
  C2. Every chain returns a result and never throws, for every world, city name and
  state. When every provider of a chain fails, each in the state its predecessor left
  (the fetch throws, or the code that reads the payload throws or finds nothing), the
  result is the chain's "unavailable" value with the source that stands for no provider.
  In the code that source is the string \<open>None\<close>, and the "unavailable" text is the \<open>data\<close>
  of the weather, news and events results, the \<open>traffic_status\<close> of the traffic result
  and the \<open>error\<close> of the city-information result.
\<close>

theorem exhausted_chain_returns_unavailable:
  "(\<exists>r. fst (fetchWeatherData w c s) = Inr r)
   \<and> (\<exists>r. fst (fetchNewsData w c s) = Inr r)
   \<and> (\<exists>r. fst (fetchEventsData w c s) = Inr r)
   \<and> (\<exists>r. fst (fetchTrafficData w c s) = Inr r)
   \<and> (\<exists>r. fst (fetchCityInfo w c s) = Inr r)
   \<and> (all_fail (weather_body w) (weatherUrls w c) s \<longrightarrow>
        fst (fetchWeatherData w c s)
          = Inr (JObj [(''data'', JStr ''Weather data unavailable''), (''source'', JStr ''None'')]))
   \<and> (all_fail (news_body w) (newsUrls w c) s \<longrightarrow>
        fst (fetchNewsData w c s)
          = Inr (JObj [(''data'', JStr ''News data unavailable''), (''source'', JStr ''None'')]))
   \<and> (isl (fst (events_body w c s)) \<longrightarrow>
        fst (fetchEventsData w c s)
          = Inr (JObj [(''data'', JStr ''Events data unavailable''), (''source'', JStr ''None'')]))
   \<and> (isl (fst (traffic_body w c s)) \<longrightarrow>
        fst (fetchTrafficData w c s)
          = Inr (JObj [(''traffic_status'', JStr ''Traffic data unavailable''),
                       (''source'', JStr ''None'')]))
   \<and> (cityInfo_all_fail w c s \<longrightarrow>
        fst (fetchCityInfo w c s)
          = Inr (JObj [(''error'', JStr ''City information unavailable''),
                       (''source'', JStr ''None'')]))"
  using fetchWeatherData_returns[of w c s] fetchNewsData_returns[of w c s]
    fetchEventsData_returns[of w c s] fetchTrafficData_returns[of w c s]
    fetchCityInfo_returns[of w c s] weather_exhausted[of w c s] news_exhausted[of w c s]
    events_exhausted[of w c s] traffic_exhausted[of w c s] city_exhausted[of w c s]
  unfolding weather_unavailable_def news_unavailable_def events_unavailable_def
    traffic_unavailable_def city_unavailable_def
  by blast

text \<open>The first provider that succeeds, chain by chain.\<close>

lemma weather_first_success:
  assumes "weatherUrls w c = us1 @ u # us2" and "all_fail (weather_body w) us1 s"
    and "weather_body w u (snd (try_each (weather_body w) us1 s)) = (Inr r, s')"
  shows "fetchWeatherData w c s = (Inr r, s')
       \<and> lookups (history s') = lookups (history s) @ us1 @ [u]"
  using loop_first_success[of "weather_body w" us1 s u r s' us2, OF weather_body_lookups assms(2,3)]
  by (simp add: fetchWeatherData_def assms(1))

lemma news_first_success:
  assumes "newsUrls w c = us1 @ u # us2" and "all_fail (news_body w) us1 s"
    and "news_body w u (snd (try_each (news_body w) us1 s)) = (Inr r, s')"
  shows "fetchNewsData w c s = (Inr r, s')
       \<and> lookups (history s') = lookups (history s) @ us1 @ [u]"
  using loop_first_success[of "news_body w" us1 s u r s' us2, OF news_body_lookups assms(2,3)]
  by (simp add: fetchNewsData_def assms(1))

lemma events_first_success:
  assumes "events_body w c s = (Inr r, s')"
  shows "fetchEventsData w c s = (Inr r, s')
       \<and> lookups (history s') = lookups (history s) @ [eventsUrl w c]"
  using assms fetch_then_lookups[of w "eventsUrl w c" "events_result w (eventsUrl w c)" s]
  by (simp add: fetchEventsData_def events_body_def)

lemma traffic_body_lookups:
  assumes "traffic_body w c s = (Inr r, s')"
  shows "\<exists>url. lookups (history s') = lookups (history s) @ [geoUrl w c, url]"
proof -
  obtain g s1 where a: "axiosWithRotation w (geoUrl w c) s = (g, s1)"
    by (cases "axiosWithRotation w (geoUrl w c) s")
  from axiosWithRotation_lookups[of w "geoUrl w c" s] a
  have l1: "lookups (history s1) = lookups (history s) @ [geoUrl w c]" by simp
  from assms a obtain url where "fetch_then w url (traffic_result w url) s1 = (Inr r, s')"
    by (auto simp: traffic_body_def split: sum.splits if_splits)
  with fetch_then_lookups[of w url "traffic_result w url" s1] l1
  show ?thesis by auto
qed

lemma traffic_first_success:
  assumes "traffic_body w c s = (Inr r, s')"
  shows "fetchTrafficData w c s = (Inr r, s')
       \<and> (\<exists>url. lookups (history s') = lookups (history s) @ [geoUrl w c, url])"
  using assms traffic_body_lookups[OF assms] by (simp add: fetchTrafficData_def)

lemma geoNames_body_lookups:
  "geoNames_body w c s = (x, s') \<Longrightarrow> lookups (history s') = lookups (history s) @ [geoNamesUrl w c]"
  using fetch_then_lookups[of w "geoNamesUrl w c" "geoNames_result w (geoNamesUrl w c)" s]
  by (simp add: geoNames_body_def)

lemma wikipedia_body_lookups:
  "wikipedia_body w c s = (x, s') \<Longrightarrow> lookups (history s') = lookups (history s) @ [wikipediaUrl c]"
  using fetch_then_lookups[of w "wikipediaUrl c" "wikipedia_result w (wikipediaUrl c)" s]
  by (simp add: wikipedia_body_def)

lemma geoCoding_body_lookups:
  "geoCoding_body w c s = (x, s') \<Longrightarrow> lookups (history s') = lookups (history s) @ [geoCodingUrl w c]"
  using fetch_then_lookups[of w "geoCodingUrl w c" "geoCoding_result w (geoCodingUrl w c)" s]
  by (simp add: geoCoding_body_def)

lemma city_first:
  assumes "geoNames_body w c s = (Inr (Some r), s')"
  shows "fetchCityInfo w c s = (Inr r, s')
       \<and> lookups (history s') = lookups (history s) @ [geoNamesUrl w c]"
  using assms geoNames_body_lookups[OF assms] by (simp add: fetchCityInfo_def)

lemma city_second:
  assumes "geoNames_body w c s = (x1, s1)" and "no_result x1"
    and "wikipedia_body w c s1 = (Inr r, s')"
  shows "fetchCityInfo w c s = (Inr r, s')
       \<and> lookups (history s') = lookups (history s) @ [geoNamesUrl w c, wikipediaUrl c]"
  using assms geoNames_body_lookups[OF assms(1)] wikipedia_body_lookups[OF assms(3)]
  by (auto simp: fetchCityInfo_def no_result_cases split: sum.splits option.splits)

lemma city_third:
  assumes "geoNames_body w c s = (x1, s1)" and "no_result x1"
    and "wikipedia_body w c s1 = (Inl e, s2)"
    and "geoCoding_body w c s2 = (Inr (Some r), s')"
  shows "fetchCityInfo w c s = (Inr r, s')
       \<and> lookups (history s') = lookups (history s)
            @ [geoNamesUrl w c, wikipediaUrl c, geoCodingUrl w c]"
  using assms geoNames_body_lookups[OF assms(1)] wikipedia_body_lookups[OF assms(3)]
    geoCoding_body_lookups[OF assms(4)]
  by (auto simp: fetchCityInfo_def no_result_cases split: sum.splits option.splits)

text \<open>
  C3. Providers are tried in the declared order, and the first whose fetch and
  normalisation succeed gives the result; no later provider is invoked. For the two
  loops (weather, news): if the providers before \<open>u\<close> in the list all fail and \<open>u\<close>
  succeeds, the chain returns the result and the state of \<open>u\<close>'s attempt, and the fetcher
  was invoked with exactly the URLs up to \<open>u\<close>, in list order. Events and traffic have
  one provider each (traffic fetches the location, then the flow data). City
  information has three blocks in a fixed order: the result and the state are those of
  the first block that returns, and the fetcher was invoked with the URLs of the blocks
  up to that one.
\<close>

theorem first_success_determines_result:
  "(weatherUrls w c = us1 @ u # us2 \<and> all_fail (weather_body w) us1 s
      \<and> weather_body w u (snd (try_each (weather_body w) us1 s)) = (Inr r, s')
      \<longrightarrow> fetchWeatherData w c s = (Inr r, s')
          \<and> lookups (history s') = lookups (history s) @ us1 @ [u])
   \<and> (newsUrls w c = us1 @ u # us2 \<and> all_fail (news_body w) us1 s
      \<and> news_body w u (snd (try_each (news_body w) us1 s)) = (Inr r, s')
      \<longrightarrow> fetchNewsData w c s = (Inr r, s')
          \<and> lookups (history s') = lookups (history s) @ us1 @ [u])
   \<and> (events_body w c s = (Inr r, s')
      \<longrightarrow> fetchEventsData w c s = (Inr r, s')
          \<and> lookups (history s') = lookups (history s) @ [eventsUrl w c])
   \<and> (traffic_body w c s = (Inr r, s')
      \<longrightarrow> fetchTrafficData w c s = (Inr r, s')
          \<and> (\<exists>url. lookups (history s') = lookups (history s) @ [geoUrl w c, url]))
   \<and> (geoNames_body w c s = (Inr (Some r), s')
      \<longrightarrow> fetchCityInfo w c s = (Inr r, s')
          \<and> lookups (history s') = lookups (history s) @ [geoNamesUrl w c])
   \<and> (geoNames_body w c s = (x1, s1) \<and> no_result x1
      \<and> wikipedia_body w c s1 = (Inr r, s')
      \<longrightarrow> fetchCityInfo w c s = (Inr r, s')
          \<and> lookups (history s') = lookups (history s) @ [geoNamesUrl w c, wikipediaUrl c])
   \<and> (geoNames_body w c s = (x1, s1) \<and> no_result x1
      \<and> wikipedia_body w c s1 = (Inl e, s2)
      \<and> geoCoding_body w c s2 = (Inr (Some r), s')
      \<longrightarrow> fetchCityInfo w c s = (Inr r, s')
          \<and> lookups (history s') = lookups (history s)
               @ [geoNamesUrl w c, wikipediaUrl c, geoCodingUrl w c])"
  using weather_first_success[of w c us1 u us2 s r s'] news_first_success[of w c us1 u us2 s r s']
    events_first_success[of w c s r s'] traffic_first_success[of w c s r s']
    city_first[of w c s r s'] city_second[of w c s x1 s1 r s']
    city_third[of w c s x1 s1 e s2 r s']
  by blast

text \<open>
  C9. In the traffic chain, when the geocoding fetch throws, or the first element of its
  payload cannot be read or is falsy, the result is the "unavailable" value with the
  source \<open>None\<close>, and the state is the one the geocoding fetch left: the fetcher was
  invoked once, with the geocoding URL, and never for the flow data.
\<close>

theorem traffic_without_location:
  assumes "axiosWithRotation w (geoUrl w c) s = (g, s1)" and "no_location w g"
  shows "fetchTrafficData w c s
           = (Inr (JObj [(''traffic_status'', JStr ''Traffic data unavailable''),
                         (''source'', JStr ''None'')]), s1)
       \<and> lookups (history (snd (fetchTrafficData w c s))) = lookups (history s) @ [geoUrl w c]"
proof -
  have "fst (traffic_body w c s) \<noteq> Inr r \<and> snd (traffic_body w c s) = s1" for r
    using assms by (cases g) (auto simp: traffic_body_def split: sum.splits)
  then have "fetchTrafficData w c s = (Inr traffic_unavailable, s1)"
    by (cases "traffic_body w c s") (auto simp: fetchTrafficData_def split: sum.splits)
  with axiosWithRotation_lookups[of w "geoUrl w c" s] assms(1)
  show ?thesis by (simp add: traffic_unavailable_def)
qed

lemma geoNames_result_population:
  assumes "geoNames_result w url d = Inr (Some r)"
  shows "\<exists>g cityData p.
           get_prop d ''geonames'' = Inr g \<and> index0 g = Inr cityData
         \<and> get_prop cityData ''population'' = Inr p
         \<and> get_prop r ''population'' = Inr (js_or w p (JStr ''Data unavailable''))"
  using assms
  by (auto simp: geoNames_result_def bind_err_def split: sum.splits if_splits)

text \<open>
  C10. When the GeoNames block of the city-information chain returns, its result is the
  result of the chain, and the \<open>population\<close> of the result is the \<open>population\<close> of the
  first entry of the payload if that is truthy, and the string \<open>Data unavailable\<close>
  otherwise: in particular when the entry has no population or a population of zero.
  The result never carries a number that is zero.
\<close>

theorem geoNames_population_fallback:
  assumes "geoNames_body w c s = (Inr (Some r), s')"
  shows "fetchCityInfo w c s = (Inr r, s')
       \<and> (\<exists>d g cityData p.
             fst (axiosWithRotation w (geoNamesUrl w c) s) = Inr d
           \<and> get_prop d ''geonames'' = Inr g \<and> index0 g = Inr cityData
           \<and> get_prop cityData ''population'' = Inr p
           \<and> get_prop r ''population''
               = Inr (if truthy w p then p else JStr ''Data unavailable'')
           \<and> (p = JUndef \<or> (\<exists>n. p = JNum n \<and> \<not> num_truthy w n)
                \<longrightarrow> get_prop r ''population'' = Inr (JStr ''Data unavailable'')))
       \<and> (\<forall>n. get_prop r ''population'' = Inr (JNum n) \<longrightarrow> num_truthy w n)"
proof -
  from assms obtain d where
    f: "fst (axiosWithRotation w (geoNamesUrl w c) s) = Inr d"
    and g: "geoNames_result w (geoNamesUrl w c) d = Inr (Some r)"
    by (auto simp: geoNames_body_def fetch_then_def split: prod.splits sum.splits)
  from geoNames_result_population[OF g] obtain g' cityData p where
    p: "get_prop d ''geonames'' = Inr g'" "index0 g' = Inr cityData"
       "get_prop cityData ''population'' = Inr p"
       "get_prop r ''population'' = Inr (js_or w p (JStr ''Data unavailable''))"
    by blast
  have a: "get_prop r ''population'' = Inr (if truthy w p then p else JStr ''Data unavailable'')"
    using p(4) by (simp add: js_or_def)
  have b: "p = JUndef \<or> (\<exists>n. p = JNum n \<and> \<not> num_truthy w n)
             \<longrightarrow> get_prop r ''population'' = Inr (JStr ''Data unavailable'')"
    using a by auto
  have c: "\<forall>n. get_prop r ''population'' = Inr (JNum n) \<longrightarrow> num_truthy w n"
    using a by (auto split: if_splits)
  have "fetchCityInfo w c s = (Inr r, s')"
    using assms by (simp add: fetchCityInfo_def)
  with f p a b c show ?thesis by blast
qed

section \<open>Running the sample worlds\<close>

text \<open>In a production world a fetch of a URL that is not in the cache is the upstream
  request.\<close>

lemma production_fetch:
  assumes "production w" and "cache s url = None"
  shows "axiosWithRotation w url s
           = (case http_get w (history s @ [EvUserAgent, EvCacheGet url]) url None of
                Some d \<Rightarrow>
                  (Inr d,
                   \<lparr>cache = (cache s)(url \<mapsto> (d, now s
                        + latency w (history s @ [EvUserAgent, EvCacheGet url]) + stdTTL * 1000)),
                    now = now s + latency w (history s @ [EvUserAgent, EvCacheGet url]),
                    history = history s @ [EvUserAgent, EvCacheGet url, EvGet url None]\<rparr>)
              | None \<Rightarrow>
                  (Inl (Error ''Failed to fetch data from the source.''),
                   \<lparr>cache = cache s,
                    now = now s + latency w (history s @ [EvUserAgent, EvCacheGet url]),
                    history = history s @ [EvUserAgent, EvCacheGet url, EvGet url None]\<rparr>))"
proof -
  have m: "\<not> truthy w (cache_get s url)" using assms(2) by (simp add: cache_get_def)
  show ?thesis
    unfolding cache_miss_production[OF m assms(1)]
    by (simp add: upstream_def request_def cache_set_def split: option.splits)
qed

lemma city_world_fetch:
  assumes "cache s url = None"
  shows "axiosWithRotation city_world url s
           = (case map_of city_table url of
                Some d \<Rightarrow>
                  (Inr d,
                   \<lparr>cache = (cache s)(url \<mapsto> (d, now s + 3600001)), now = now s + 1,
                    history = history s @ [EvUserAgent, EvCacheGet url, EvGet url None]\<rparr>)
              | None \<Rightarrow>
                  (Inl (Error ''Failed to fetch data from the source.''),
                   \<lparr>cache = cache s, now = now s + 1,
                    history = history s @ [EvUserAgent, EvCacheGet url, EvGet url None]\<rparr>))"
proof -
  have p: "production city_world" by (simp add: world_defs)
  show ?thesis
    unfolding production_fetch[OF p assms]
    by (simp add: world_defs stdTTL_def add.commute split: option.splits)
qed

lemma down_world_fetch:
  assumes "cache s url = None"
  shows "axiosWithRotation down_world url s
           = (Inl (Error ''Failed to fetch data from the source.''),
              \<lparr>cache = cache s, now = now s + 1,
               history = history s @ [EvUserAgent, EvCacheGet url, EvGet url None]\<rparr>)"
proof -
  have p: "production down_world" by (simp add: world_defs)
  show ?thesis
    unfolding production_fetch[OF p assms]
    by (simp add: world_defs)
qed

lemma city_world_env: "env_str city_world name = ''k''"
  by (simp add: env_str_def world_defs)

lemma down_world_env: "env_str down_world name = ''k''"
  by (simp add: env_str_def world_defs)

lemmas url_defs = weatherUrls_def newsUrls_def eventsUrl_def geoUrl_def geoNamesUrl_def
  wikipediaUrl_def geoCodingUrl_def city_world_env down_world_env

lemmas chain_defs = fetch_then_def weather_body_def news_body_def events_body_def
  geoNames_body_def wikipedia_body_def geoCoding_body_def traffic_body_def

lemma down_weather: "all_fail (weather_body down_world) (weatherUrls down_world ''Paris'') start"
  by (simp add: url_defs chain_defs down_world_fetch start_def)

lemma down_news: "all_fail (news_body down_world) (newsUrls down_world ''Paris'') start"
  by (simp add: url_defs chain_defs down_world_fetch start_def)

lemma down_events: "isl (fst (events_body down_world ''Paris'' start))"
  by (simp add: url_defs chain_defs down_world_fetch start_def)

lemma down_traffic: "isl (fst (traffic_body down_world ''Paris'' start))"
  by (simp add: url_defs chain_defs down_world_fetch start_def)

lemma down_city: "cityInfo_all_fail down_world ''Paris'' start"
  by (simp add: cityInfo_all_fail_def url_defs chain_defs down_world_fetch start_def)

subsection \<open>The chains on the sample worlds\<close>

text \<open>Every upstream down: the five chains give their "unavailable" values.\<close>

theorem exhausted_chain_returns_unavailable_witness:
  "all_fail (weather_body down_world) (weatherUrls down_world ''Paris'') start
   \<and> all_fail (news_body down_world) (newsUrls down_world ''Paris'') start
   \<and> isl (fst (events_body down_world ''Paris'' start))
   \<and> isl (fst (traffic_body down_world ''Paris'' start))
   \<and> cityInfo_all_fail down_world ''Paris'' start
   \<and> fst (fetchWeatherData down_world ''Paris'' start)
       = Inr (JObj [(''data'', JStr ''Weather data unavailable''), (''source'', JStr ''None'')])
   \<and> fst (fetchNewsData down_world ''Paris'' start)
       = Inr (JObj [(''data'', JStr ''News data unavailable''), (''source'', JStr ''None'')])
   \<and> fst (fetchEventsData down_world ''Paris'' start)
       = Inr (JObj [(''data'', JStr ''Events data unavailable''), (''source'', JStr ''None'')])
   \<and> fst (fetchTrafficData down_world ''Paris'' start)
       = Inr (JObj [(''traffic_status'', JStr ''Traffic data unavailable''),
                    (''source'', JStr ''None'')])
   \<and> fst (fetchCityInfo down_world ''Paris'' start)
       = Inr (JObj [(''error'', JStr ''City information unavailable''),
                    (''source'', JStr ''None'')])"
  using exhausted_chain_returns_unavailable[of down_world "''Paris''" start]
    down_weather down_news down_events down_traffic down_city
  by simp


lemma city_world_num: "num_truthy city_world n = (n \<noteq> 0)"
  by (simp add: world_defs)

lemma rome_body:
  "fst (geoNames_body city_world ''Rome'' start)
     = Inr (Some (JObj
         [(''name'', JStr ''Rome''), (''population'', JStr ''Data unavailable''),
          (''country'', JStr ''Italy''),
          (''coordinates'', JObj [(''lat'', JStr ''41.89''), (''lon'', JStr ''12.51'')]),
          (''source'', JStr (geoNamesUrl city_world ''Rome''))]))"
  by (simp add: url_defs chain_defs city_world_fetch start_def city_table_def
        geoNames_result_def bind_err_def js_or_def city_world_num)

lemma lima_body:
  "fst (geoNames_body city_world ''Lima'' start)
     = Inr (Some (JObj
         [(''name'', JStr ''Lima''), (''population'', JStr ''Data unavailable''),
          (''country'', JStr ''Peru''),
          (''coordinates'', JObj [(''lat'', JStr ''-12.04''), (''lon'', JStr ''-77.03'')]),
          (''source'', JStr (geoNamesUrl city_world ''Lima''))]))"
  by (simp add: url_defs chain_defs city_world_fetch start_def city_table_def
        geoNames_result_def bind_err_def js_or_def city_world_num)

text \<open>Rome, with a population of zero, and Lima, with none.\<close>

theorem geoNames_population_fallback_witness:
  "fst (fetchCityInfo city_world ''Rome'' start)
     = Inr (JObj
         [(''name'', JStr ''Rome''), (''population'', JStr ''Data unavailable''),
          (''country'', JStr ''Italy''),
          (''coordinates'', JObj [(''lat'', JStr ''41.89''), (''lon'', JStr ''12.51'')]),
          (''source'', JStr (geoNamesUrl city_world ''Rome''))])
   \<and> fst (fetchCityInfo city_world ''Lima'' start)
     = Inr (JObj
         [(''name'', JStr ''Lima''), (''population'', JStr ''Data unavailable''),
          (''country'', JStr ''Peru''),
          (''coordinates'', JObj [(''lat'', JStr ''-12.04''), (''lon'', JStr ''-77.03'')]),
          (''source'', JStr (geoNamesUrl city_world ''Lima''))])"
proof -
  have r: "geoNames_body city_world ''Rome'' start
             = (Inr (Some (JObj
                 [(''name'', JStr ''Rome''), (''population'', JStr ''Data unavailable''),
                  (''country'', JStr ''Italy''),
                  (''coordinates'', JObj [(''lat'', JStr ''41.89''), (''lon'', JStr ''12.51'')]),
                  (''source'', JStr (geoNamesUrl city_world ''Rome''))])),
                snd (geoNames_body city_world ''Rome'' start))"
    using rome_body by (simp add: prod_eq_iff)
  have l: "geoNames_body city_world ''Lima'' start
             = (Inr (Some (JObj
                 [(''name'', JStr ''Lima''), (''population'', JStr ''Data unavailable''),
                  (''country'', JStr ''Peru''),
                  (''coordinates'', JObj [(''lat'', JStr ''-12.04''), (''lon'', JStr ''-77.03'')]),
                  (''source'', JStr (geoNamesUrl city_world ''Lima''))])),
                snd (geoNames_body city_world ''Lima'' start))"
    using lima_body by (simp add: prod_eq_iff)
  from geoNames_population_fallback[OF r] geoNames_population_fallback[OF l]
  show ?thesis by simp
qed

text \<open>Rome, whose geocoding request fails, and Atlantis, whose geocoding answer is an
  empty list.\<close>

theorem traffic_without_location_witness:
  "fst (axiosWithRotation city_world (geoUrl city_world ''Rome'') start)
     = Inl (Error ''Failed to fetch data from the source.'')
   \<and> fst (fetchTrafficData city_world ''Rome'' start)
       = Inr (JObj [(''traffic_status'', JStr ''Traffic data unavailable''),
                    (''source'', JStr ''None'')])
   \<and> lookups (history (snd (fetchTrafficData city_world ''Rome'' start)))
       = [geoUrl city_world ''Rome'']
   \<and> fst (axiosWithRotation city_world (geoUrl city_world ''Atlantis'') start) = Inr (JArr [])
   \<and> fst (fetchTrafficData city_world ''Atlantis'' start)
       = Inr (JObj [(''traffic_status'', JStr ''Traffic data unavailable''),
                    (''source'', JStr ''None'')])
   \<and> lookups (history (snd (fetchTrafficData city_world ''Atlantis'' start)))
       = [geoUrl city_world ''Atlantis'']"
proof -
  have c0: "cache start u = None" for u by (simp add: start_def)
  have l0: "lookups (history start) = []" by (simp add: start_def lookups_def)
  have r1: "fst (axiosWithRotation city_world (geoUrl city_world ''Rome'') start)
              = Inl (Error ''Failed to fetch data from the source.'')"
    by (simp add: city_world_fetch[OF c0] url_defs city_table_def)
  have a1: "fst (axiosWithRotation city_world (geoUrl city_world ''Atlantis'') start) = Inr (JArr [])"
    by (simp add: city_world_fetch[OF c0] url_defs city_table_def)
  have r2: "axiosWithRotation city_world (geoUrl city_world ''Rome'') start
              = (Inl (Error ''Failed to fetch data from the source.''),
                 snd (axiosWithRotation city_world (geoUrl city_world ''Rome'') start))"
    using r1 by (simp add: prod_eq_iff)
  have a2: "axiosWithRotation city_world (geoUrl city_world ''Atlantis'') start
              = (Inr (JArr []),
                 snd (axiosWithRotation city_world (geoUrl city_world ''Atlantis'') start))"
    using a1 by (simp add: prod_eq_iff)
  have n1: "no_location city_world (Inl (Error ''Failed to fetch data from the source.''))"
    by simp
  have n2: "no_location city_world (Inr (JArr []))" by simp
  note t1 = traffic_without_location[OF r2 n1] and t2 = traffic_without_location[OF a2 n2]
  from t1[THEN conjunct1] have f1: "fst (fetchTrafficData city_world ''Rome'' start)
      = Inr (JObj [(''traffic_status'', JStr ''Traffic data unavailable''),
                   (''source'', JStr ''None'')])"
    by simp
  from t2[THEN conjunct1] have f2: "fst (fetchTrafficData city_world ''Atlantis'' start)
      = Inr (JObj [(''traffic_status'', JStr ''Traffic data unavailable''),
                   (''source'', JStr ''None'')])"
    by simp
  from t1[THEN conjunct2] l0
  have k1: "lookups (history (snd (fetchTrafficData city_world ''Rome'' start)))
              = [geoUrl city_world ''Rome'']"
    by simp
  from t2[THEN conjunct2] l0
  have k2: "lookups (history (snd (fetchTrafficData city_world ''Atlantis'' start)))
              = [geoUrl city_world ''Atlantis'']"
    by simp
  show ?thesis using r1 a1 f1 f2 k1 k2 by simp
qed

lemma pair_fst: "fst x = a \<Longrightarrow> x = (a, snd x)"
  by (simp add: prod_eq_iff)

lemma start_lookups: "lookups (history start) = []"
  by (simp add: start_def lookups_def)

lemmas run_defs = url_defs chain_defs city_world_fetch start_def city_table_def bind_err_def
  js_or_def city_world_num paris_summary_def

text \<open>Paris: the second weather and news providers answer after the first fail; events
  and traffic answer. City information: Rome is answered by the first block, Paris by
  the second, Oslo by the third.\<close>

theorem first_success_determines_result_witness:
  "fst (fetchWeatherData city_world ''Paris'' start)
     = Inr (JObj [(''data'', JObj [(''current'', JObj [(''temp_c'', JNum 18)])]),
                  (''source'',
                   JStr ''https://api.weatherapi.com/v1/forecast.json?key=k&q=Paris&days=7'')])
   \<and> lookups (history (snd (fetchWeatherData city_world ''Paris'' start)))
       = weatherUrls city_world ''Paris''
   \<and> fst (fetchNewsData city_world ''Paris'' start)
       = Inr (JObj [(''data'', JArr [JStr ''Summit opens'', JStr ''Marathon'']),
                    (''source'', JStr ''https://gnews.io/api/v4/search?q=Paris&lang=en&token=k'')])
   \<and> lookups (history (snd (fetchNewsData city_world ''Paris'' start)))
       = newsUrls city_world ''Paris''
   \<and> fst (fetchEventsData city_world ''Paris'' start)
       = Inr (JObj [(''data'', JArr [JStr ''Concert at Olympia'']),
                    (''source'', JStr (eventsUrl city_world ''Paris''))])
   \<and> lookups (history (snd (fetchEventsData city_world ''Paris'' start)))
       = [eventsUrl city_world ''Paris'']
   \<and> fst (fetchTrafficData city_world ''Paris'' start)
       = Inr (JObj [(''traffic_status'', JStr ''Current speed: 40 km/h''),
                    (''source'',
                     JStr ''https://api.tomtom.com/traffic/services/4/flowSegmentData/absolute/10/json?key=k&point=48.85,2.35'')])
   \<and> lookups (history (snd (fetchCityInfo city_world ''Rome'' start)))
       = [geoNamesUrl city_world ''Rome'']
   \<and> fst (fetchCityInfo city_world ''Paris'' start)
       = Inr (JObj [(''name'', JStr ''Paris''), (''description'', JStr ''Capital of France''),
                    (''image'', JStr ''https://img.example/paris.jpg''),
                    (''source'', JStr (wikipediaUrl ''Paris''))])
   \<and> lookups (history (snd (fetchCityInfo city_world ''Paris'' start)))
       = [geoNamesUrl city_world ''Paris'', wikipediaUrl ''Paris'']
   \<and> fst (fetchCityInfo city_world ''Oslo'' start)
       = Inr (JObj [(''name'', JStr ''Oslo''),
                    (''coordinates'', JObj [(''lat'', JStr ''59.91''), (''lon'', JStr ''10.75'')]),
                    (''country'', JStr ''NO''),
                    (''source'', JStr (geoCodingUrl city_world ''Oslo''))])
   \<and> lookups (history (snd (fetchCityInfo city_world ''Oslo'' start)))
       = [geoNamesUrl city_world ''Oslo'', wikipediaUrl ''Oslo'', geoCodingUrl city_world ''Oslo'']"
proof -
  let ?w = city_world
  note T = first_success_determines_result
  let ?w1 = "''https://api.openweathermap.org/data/2.5/forecast?q=Paris&units=metric&appid=k''"
  let ?w2 = "''https://api.weatherapi.com/v1/forecast.json?key=k&q=Paris&days=7''"
  let ?wr = "JObj [(''data'', JObj [(''current'', JObj [(''temp_c'', JNum (18::sample_number))])]),
                   (''source'', JStr ?w2)]"
  define ws where "ws = snd (weather_body ?w ?w2 (snd (try_each (weather_body ?w) [?w1] start)))"
  have wu: "weatherUrls ?w ''Paris'' = [?w1] @ ?w2 # []" by (simp add: url_defs)
  have wf: "all_fail (weather_body ?w) [?w1] start" by (simp add: run_defs)
  have "fst (weather_body ?w ?w2 (snd (try_each (weather_body ?w) [?w1] start))) = Inr ?wr"
    by (simp add: run_defs)
  then have wb: "weather_body ?w ?w2 (snd (try_each (weather_body ?w) [?w1] start)) = (Inr ?wr, ws)"
    unfolding ws_def by (rule pair_fst)
  from T[where w = ?w and c = "''Paris''" and ?us1.0 = "[?w1]" and u = ?w2 and ?us2.0 = "[]"
           and s = start and r = ?wr and s' = ws, THEN conjunct1] wu wf wb
  have weather: "fetchWeatherData ?w ''Paris'' start = (Inr ?wr, ws)
                 \<and> lookups (history ws) = lookups (history start) @ [?w1] @ [?w2]"
    by blast
  let ?n1 = "''https://newsapi.org/v2/everything?q=Paris&apiKey=k''"
  let ?n2 = "''https://gnews.io/api/v4/search?q=Paris&lang=en&token=k''"
  let ?nr = "JObj [(''data'', JArr [JStr ''Summit opens'', JStr ''Marathon'']),
                   (''source'', JStr ?n2)] :: sample_number json"
  define ns where "ns = snd (news_body ?w ?n2 (snd (try_each (news_body ?w) [?n1] start)))"
  have nu: "newsUrls ?w ''Paris'' = [?n1] @ ?n2 # []" by (simp add: url_defs)
  have nf: "all_fail (news_body ?w) [?n1] start" by (simp add: run_defs)
  have "fst (news_body ?w ?n2 (snd (try_each (news_body ?w) [?n1] start))) = Inr ?nr"
    by (simp add: run_defs news_titles_def)
  then have nb: "news_body ?w ?n2 (snd (try_each (news_body ?w) [?n1] start)) = (Inr ?nr, ns)"
    unfolding ns_def by (rule pair_fst)
  from T[where w = ?w and c = "''Paris''" and ?us1.0 = "[?n1]" and u = ?n2 and ?us2.0 = "[]"
           and s = start and r = ?nr and s' = ns, THEN conjunct2, THEN conjunct1] nu nf nb
  have news: "fetchNewsData ?w ''Paris'' start = (Inr ?nr, ns)
              \<and> lookups (history ns) = lookups (history start) @ [?n1] @ [?n2]"
    by blast
  let ?er = "JObj [(''data'', JArr [JStr ''Concert at Olympia'']),
                   (''source'', JStr (eventsUrl ?w ''Paris''))] :: sample_number json"
  define es where "es = snd (events_body ?w ''Paris'' start)"
  have "fst (events_body ?w ''Paris'' start) = Inr ?er"
    by (simp add: run_defs events_result_def event_line_def)
  then have eb: "events_body ?w ''Paris'' start = (Inr ?er, es)"
    unfolding es_def by (rule pair_fst)
  from T[where w = ?w and c = "''Paris''" and s = start and r = ?er and s' = es,
           THEN conjunct2, THEN conjunct2, THEN conjunct1] eb
  have events: "fetchEventsData ?w ''Paris'' start = (Inr ?er, es)
                \<and> lookups (history es) = lookups (history start) @ [eventsUrl ?w ''Paris'']"
    by blast
  let ?tr = "JObj [(''traffic_status'', JStr ''Current speed: 40 km/h''),
                   (''source'',
                    JStr ''https://api.tomtom.com/traffic/services/4/flowSegmentData/absolute/10/json?key=k&point=48.85,2.35'')]
             :: sample_number json"
  define ts where "ts = snd (traffic_body ?w ''Paris'' start)"
  have "fst (traffic_body ?w ''Paris'' start) = Inr ?tr"
    by (simp add: run_defs trafficUrl_def traffic_result_def)
  then have tb: "traffic_body ?w ''Paris'' start = (Inr ?tr, ts)"
    unfolding ts_def by (rule pair_fst)
  from T[where w = ?w and c = "''Paris''" and s = start and r = ?tr and s' = ts,
           THEN conjunct2, THEN conjunct2, THEN conjunct2, THEN conjunct1] tb
  have traffic: "fetchTrafficData ?w ''Paris'' start = (Inr ?tr, ts)"
    by blast
  let ?rr = "JObj
         [(''name'', JStr ''Rome''), (''population'', JStr ''Data unavailable''),
          (''country'', JStr ''Italy''),
          (''coordinates'', JObj [(''lat'', JStr ''41.89''), (''lon'', JStr ''12.51'')]),
          (''source'', JStr (geoNamesUrl city_world ''Rome''))] :: sample_number json"
  define rs where "rs = snd (geoNames_body ?w ''Rome'' start)"
  have rb: "geoNames_body ?w ''Rome'' start = (Inr (Some ?rr), rs)"
    unfolding rs_def using rome_body by (rule pair_fst)
  from T[where w = ?w and c = "''Rome''" and s = start and r = ?rr and s' = rs,
           THEN conjunct2, THEN conjunct2, THEN conjunct2, THEN conjunct2, THEN conjunct1] rb
  have rome: "fetchCityInfo ?w ''Rome'' start = (Inr ?rr, rs)
              \<and> lookups (history rs) = lookups (history start) @ [geoNamesUrl ?w ''Rome'']"
    by blast
  let ?pr = "JObj [(''name'', JStr ''Paris''), (''description'', JStr ''Capital of France''),
                   (''image'', JStr ''https://img.example/paris.jpg''),
                   (''source'', JStr (wikipediaUrl ''Paris''))] :: sample_number json"
  let ?x = "Inl (Error ''Failed to fetch data from the source.'') :: error + sample_number json option"
  define p1 where "p1 = snd (geoNames_body ?w ''Paris'' start)"
  define ps where "ps = snd (wikipedia_body ?w ''Paris'' p1)"
  have "fst (geoNames_body ?w ''Paris'' start) = ?x" by (simp add: run_defs)
  then have pg: "geoNames_body ?w ''Paris'' start = (?x, p1)"
    unfolding p1_def by (rule pair_fst)
  have px: "no_result ?x" by simp
  have "fst (wikipedia_body ?w ''Paris'' p1) = Inr ?pr"
    unfolding p1_def by (simp add: run_defs wikipedia_result_def)
  then have pw: "wikipedia_body ?w ''Paris'' p1 = (Inr ?pr, ps)"
    unfolding ps_def by (rule pair_fst)
  from T[where w = ?w and c = "''Paris''" and s = start and ?x1.0 = ?x and ?s1.0 = p1
           and r = ?pr and s' = ps,
           THEN conjunct2, THEN conjunct2, THEN conjunct2, THEN conjunct2, THEN conjunct2,
           THEN conjunct1] pg px pw
  have paris: "fetchCityInfo ?w ''Paris'' start = (Inr ?pr, ps)
               \<and> lookups (history ps) = lookups (history start)
                    @ [geoNamesUrl ?w ''Paris'', wikipediaUrl ''Paris'']"
    by blast
  let ?or = "JObj [(''name'', JStr ''Oslo''),
                   (''coordinates'', JObj [(''lat'', JStr ''59.91''), (''lon'', JStr ''10.75'')]),
                   (''country'', JStr ''NO''),
                   (''source'', JStr (geoCodingUrl city_world ''Oslo''))] :: sample_number json"
  let ?e = "Error ''Failed to fetch data from the source.''"
  define o1 where "o1 = snd (geoNames_body ?w ''Oslo'' start)"
  define o2 where "o2 = snd (wikipedia_body ?w ''Oslo'' o1)"
  define os where "os = snd (geoCoding_body ?w ''Oslo'' o2)"
  have "fst (geoNames_body ?w ''Oslo'' start) = ?x" by (simp add: run_defs)
  then have og: "geoNames_body ?w ''Oslo'' start = (?x, o1)"
    unfolding o1_def by (rule pair_fst)
  have "fst (wikipedia_body ?w ''Oslo'' o1) = Inl ?e"
    unfolding o1_def by (simp add: run_defs)
  then have ow: "wikipedia_body ?w ''Oslo'' o1 = (Inl ?e, o2)"
    unfolding o2_def by (rule pair_fst)
  have "fst (geoCoding_body ?w ''Oslo'' o2) = Inr (Some ?or)"
    unfolding o2_def o1_def by (simp add: run_defs geoCoding_result_def)
  then have oc: "geoCoding_body ?w ''Oslo'' o2 = (Inr (Some ?or), os)"
    unfolding os_def by (rule pair_fst)
  from T[where w = ?w and c = "''Oslo''" and s = start and ?x1.0 = ?x and ?s1.0 = o1
           and e = ?e and ?s2.0 = o2 and r = ?or and s' = os,
           THEN conjunct2, THEN conjunct2, THEN conjunct2, THEN conjunct2, THEN conjunct2,
           THEN conjunct2] og px ow oc
  have oslo: "fetchCityInfo ?w ''Oslo'' start = (Inr ?or, os)
              \<and> lookups (history os) = lookups (history start)
                   @ [geoNamesUrl ?w ''Oslo'', wikipediaUrl ''Oslo'', geoCodingUrl ?w ''Oslo'']"
    by blast
  show ?thesis
    using weather news events traffic rome paris oslo
    by (simp add: start_lookups wu nu)
qed

section \<open>The city information in the combined response\<close>

text \<open>No result of \<open>fetchCityInfo\<close> has a property \<open>data\<close>, so the handler, which reads
  \<open>cityResponse.value.data\<close>, never sends a \<open>city_info\<close>.\<close>

lemma geoNames_result_no_data:
  "geoNames_result w u d = Inr (Some r) \<Longrightarrow> get_prop r ''data'' = Inr JUndef"
  by (auto simp: geoNames_result_def bind_err_def split: sum.splits if_splits)

lemma wikipedia_result_no_data:
  "wikipedia_result w u d = Inr r \<Longrightarrow> get_prop r ''data'' = Inr JUndef"
  by (auto simp: wikipedia_result_def bind_err_def split: sum.splits if_splits)

lemma geoCoding_result_no_data:
  "geoCoding_result w u d = Inr (Some r) \<Longrightarrow> get_prop r ''data'' = Inr JUndef"
  by (auto simp: geoCoding_result_def bind_err_def split: sum.splits if_splits)

lemma fetch_then_result:
  "fetch_then w u k s = (Inr r, s') \<Longrightarrow> \<exists>d. k d = Inr r"
  by (auto simp: fetch_then_def split: prod.splits sum.splits)

lemma fetchCityInfo_no_data:
  "\<exists>v. fst (fetchCityInfo w c s) = Inr v \<and> get_prop v ''data'' = Inr JUndef"
proof -
  have g: "get_prop r ''data'' = Inr JUndef" if "geoNames_body w c s0 = (Inr (Some r), s1)" for r s0 s1
    using fetch_then_result[OF that[unfolded geoNames_body_def]] geoNames_result_no_data by blast
  have k: "get_prop r ''data'' = Inr JUndef" if "wikipedia_body w c s0 = (Inr r, s1)" for r s0 s1
    using fetch_then_result[OF that[unfolded wikipedia_body_def]] wikipedia_result_no_data by blast
  have o: "get_prop r ''data'' = Inr JUndef" if "geoCoding_body w c s0 = (Inr (Some r), s1)" for r s0 s1
    using fetch_then_result[OF that[unfolded geoCoding_body_def]] geoCoding_result_no_data by blast
  have u: "get_prop city_unavailable ''data'' = Inr JUndef"
    by (simp add: city_unavailable_def)
  show ?thesis
    using g k o u
    by (auto simp: fetchCityInfo_def split: prod.splits sum.splits option.splits)
qed

lemma city_info_never_sent:
  "\<exists>body. respond c (fst (fetchCityInfo w c s)) wr nr er tr = Inr body
         \<and> \<not> has_prop body ''city_info''"
proof -
  from fetchCityInfo_no_data[of w c s] obtain v where
    v: "fst (fetchCityInfo w c s) = Inr v" "get_prop v ''data'' = Inr JUndef"
    by blast
  show ?thesis
    unfolding v(1) by (simp add: respond_def composite_def bind_err_def v(2))
qed

text \<open>
  C1, the code evaluated on the scenario of the claim: a request for Paris where the
  gazetteer fails and the encyclopedia answers. The chain returns the encyclopedia's
  fields with its URL as source, but the handler reads \<open>cityResponse.value.data\<close>, a
  property the chain's result does not have: \<open>city_info\<close> is \<open>undefined\<close> in the object
  built by the handler and absent from the JSON it sends.
\<close>

theorem encyclopedia_city_info_missing_from_response:
  "fst (fetchCityInfo city_world ''Paris'' start)
     = Inr (JObj [(''name'', JStr ''Paris''), (''description'', JStr ''Capital of France''),
                  (''image'', JStr ''https://img.example/paris.jpg''),
                  (''source'', JStr ''https://en.wikipedia.org/api/rest_v1/page/summary/Paris'')])
   \<and> composite ''Paris''
        (fst (fetchCityInfo city_world ''Paris'' start))
        (fst (fetchWeatherData city_world ''Paris'' start))
        (fst (fetchNewsData city_world ''Paris'' start))
        (fst (fetchEventsData city_world ''Paris'' start))
        (fst (fetchTrafficData city_world ''Paris'' start))
       = Inr (JObj
           [(''city'', JStr ''Paris''),
            (''city_info'', JUndef),
            (''weather'',
               JObj [(''data'', JObj [(''current'', JObj [(''temp_c'', JNum 18)])]),
                     (''source'',
                      JStr ''https://api.weatherapi.com/v1/forecast.json?key=k&q=Paris&days=7'')]),
            (''news'',
               JObj [(''data'', JArr [JStr ''Summit opens'', JStr ''Marathon'']),
                     (''source'',
                      JStr ''https://gnews.io/api/v4/search?q=Paris&lang=en&token=k'')]),
            (''events'',
               JObj [(''data'', JArr [JStr ''Concert at Olympia'']),
                     (''source'',
                      JStr ''https://api.eventful.com/json/events/search?location=Paris&app_key=k'')]),
            (''traffic'',
               JObj [(''traffic_status'', JStr ''Current speed: 40 km/h''),
                     (''source'',
                      JStr ''https://api.tomtom.com/traffic/services/4/flowSegmentData/absolute/10/json?key=k&point=48.85,2.35'')])])
   \<and> respond ''Paris''
        (fst (fetchCityInfo city_world ''Paris'' start))
        (fst (fetchWeatherData city_world ''Paris'' start))
        (fst (fetchNewsData city_world ''Paris'' start))
        (fst (fetchEventsData city_world ''Paris'' start))
        (fst (fetchTrafficData city_world ''Paris'' start))
       = Inr (JObj
           [(''city'', JStr ''Paris''),
            (''weather'',
               JObj [(''data'', JObj [(''current'', JObj [(''temp_c'', JNum 18)])]),
                     (''source'',
                      JStr ''https://api.weatherapi.com/v1/forecast.json?key=k&q=Paris&days=7'')]),
            (''news'',
               JObj [(''data'', JArr [JStr ''Summit opens'', JStr ''Marathon'']),
                     (''source'',
                      JStr ''https://gnews.io/api/v4/search?q=Paris&lang=en&token=k'')]),
            (''events'',
               JObj [(''data'', JArr [JStr ''Concert at Olympia'']),
                     (''source'',
                      JStr ''https://api.eventful.com/json/events/search?location=Paris&app_key=k'')]),
            (''traffic'',
               JObj [(''traffic_status'', JStr ''Current speed: 40 km/h''),
                     (''source'',
                      JStr ''https://api.tomtom.com/traffic/services/4/flowSegmentData/absolute/10/json?key=k&point=48.85,2.35'')])])"
proof -
  have c: "fst (fetchCityInfo city_world ''Paris'' start)
     = Inr (JObj [(''name'', JStr ''Paris''), (''description'', JStr ''Capital of France''),
                  (''image'', JStr ''https://img.example/paris.jpg''),
                  (''source'', JStr ''https://en.wikipedia.org/api/rest_v1/page/summary/Paris'')])"
    by (simp add: fetchCityInfo_def run_defs wikipedia_result_def)
  have w: "fst (fetchWeatherData city_world ''Paris'' start)
     = Inr (JObj [(''data'', JObj [(''current'', JObj [(''temp_c'', JNum 18)])]),
                  (''source'',
                   JStr ''https://api.weatherapi.com/v1/forecast.json?key=k&q=Paris&days=7'')])"
    by (simp add: fetchWeatherData_def run_defs)
  have n: "fst (fetchNewsData city_world ''Paris'' start)
     = Inr (JObj [(''data'', JArr [JStr ''Summit opens'', JStr ''Marathon'']),
                  (''source'', JStr ''https://gnews.io/api/v4/search?q=Paris&lang=en&token=k'')])"
    by (simp add: fetchNewsData_def run_defs news_titles_def)
  have e: "fst (fetchEventsData city_world ''Paris'' start)
     = Inr (JObj [(''data'', JArr [JStr ''Concert at Olympia'']),
                  (''source'',
                   JStr ''https://api.eventful.com/json/events/search?location=Paris&app_key=k'')])"
    by (simp add: fetchEventsData_def run_defs events_result_def event_line_def)
  have t: "fst (fetchTrafficData city_world ''Paris'' start)
     = Inr (JObj [(''traffic_status'', JStr ''Current speed: 40 km/h''),
                  (''source'',
                   JStr ''https://api.tomtom.com/traffic/services/4/flowSegmentData/absolute/10/json?key=k&point=48.85,2.35'')])"
    by (simp add: fetchTrafficData_def run_defs trafficUrl_def traffic_result_def)
  show ?thesis
    unfolding c w n e t
    by (simp add: respond_def composite_def bind_err_def settled_def)
qed

end
